theory Spec2Isabelle
  imports Complex_Main
begin

section \<open>The web-search route handler (app/api/web-search/route.ts)\<close>

text \<open>
  The handler \<open>POST\<close> is embedded as a pure function from an environment (the outcome of
  every external call the handler can make) to the handler's outcome and the list of
  external effects it performed, in order.  Values that reach the handler through
  \<open>req.json()\<close> and \<open>res.json()\<close> are untyped in the source (\<open>any\<close>), so they are
  modelled as arbitrary JSON values and every property read can raise.
\<close>

subsection \<open>JavaScript values\<close>

text \<open>
  A JavaScript number is an IEEE 754 double: a finite one is given by its rational
  value.  Negative zero is not told apart from zero: nothing the handler does with a
  number (truthiness, \<open>typeof\<close>, adding 1 or 2, printing) distinguishes them.
\<close>

datatype number = Finite rat | PosInfinity | NegInfinity | NaN

fun number_truthy :: "number \<Rightarrow> bool" where
  "number_truthy (Finite x) = (x \<noteq> 0)"
| "number_truthy NaN = False"
| "number_truthy n = True"

definition pow2 :: "int \<Rightarrow> rat" where
  "pow2 k = (if 0 \<le> k then 2 ^ nat k else 1 / 2 ^ nat (- k))"

text \<open>The number of binary digits of a positive integer.\<close>

function bit_length :: "int \<Rightarrow> nat" where
  "bit_length n = (if n \<le> 0 then 0 else Suc (bit_length (n div 2)))"
  by pat_completeness auto
termination
  by (relation "measure nat") auto

declare bit_length.simps [simp del]

text \<open>
  The binary exponent of a positive rational \<open>a\<close>: the \<open>e\<close> with
  \<open>2 ^ e \<le> a < 2 ^ (e + 1)\<close>.  With \<open>a = p / q\<close> it is the difference of the bit
  lengths of \<open>p\<close> and \<open>q\<close>, or one less.
\<close>

definition binary_exponent :: "rat \<Rightarrow> int" where
  "binary_exponent a =
     (case quotient_of a of
        (p, q) \<Rightarrow>
          let d = int (bit_length p) - int (bit_length q)
          in if pow2 d \<le> a then d else d - 1)"

definition round_half_even :: "rat \<Rightarrow> int" where
  "round_half_even m =
     (let n = \<lfloor>m\<rfloor>; f = m - of_int n
      in if f < 1 / 2 then n else if 1 / 2 < f then n + 1 else if even n then n else n + 1)"

text \<open>
  Rounding a rational to the nearest double, ties to the even significand: 53 significant
  bits, the unit in the last place no smaller than \<open>2 ^ - 1074\<close>, and infinity from
  \<open>2 ^ 1024\<close> on.
\<close>

definition round_double :: "rat \<Rightarrow> number" where
  "round_double x =
     (if x = 0 then Finite 0
      else
        let a = \<bar>x\<bar>;
            u = max (binary_exponent a - 52) (- 1074);
            y = of_int (round_half_even (a / pow2 u)) * pow2 u
        in if pow2 1024 \<le> y then (if 0 < x then PosInfinity else NegInfinity)
           else Finite (if 0 < x then y else - y))"

text \<open>\<open>a + b\<close> on numbers: the exact sum, rounded.\<close>

fun js_add :: "number \<Rightarrow> number \<Rightarrow> number" where
  "js_add (Finite x) (Finite y) = round_double (x + y)"
| "js_add NaN b = NaN"
| "js_add a NaN = NaN"
| "js_add PosInfinity NegInfinity = NaN"
| "js_add NegInfinity PosInfinity = NaN"
| "js_add PosInfinity b = PosInfinity"
| "js_add NegInfinity b = NegInfinity"
| "js_add a PosInfinity = PosInfinity"
| "js_add a NegInfinity = NegInfinity"

text \<open>
  A parsed JSON value.  \<open>JObj kvs\<close> is the object whose own properties, in enumeration
  order, are \<open>kvs\<close>.  Strings are the bytes of their UTF-8 form.
\<close>

datatype json =
    JNull
  | JBool bool
  | JNum number
  | JStr string
  | JArr "json list"
  | JObj "(string \<times> json) list"

text \<open>A JavaScript value is a JSON value or \<open>undefined\<close> (\<open>None\<close>).\<close>

type_synonym jsval = "json option"

text \<open>
  What the handler can catch: a \<open>TypeError\<close> raised by the runtime (reading a property of
  \<open>null\<close>/\<open>undefined\<close>, calling something that is not a function), whose text the engine
  chooses, and an \<open>Error\<close> thrown with a message by \<open>fetch\<close>, by a body parser, by the
  completion client or by \<open>fetchSearchResults\<close> itself.
\<close>

datatype exn = TypeError | Thrown string

definition andThen :: "exn + 'a \<Rightarrow> ('a \<Rightarrow> exn + 'b) \<Rightarrow> exn + 'b" where
  "andThen r f = (case r of Inl e \<Rightarrow> Inl e | Inr x \<Rightarrow> f x)"

fun map_exn :: "('a \<Rightarrow> exn + 'b) \<Rightarrow> 'a list \<Rightarrow> exn + 'b list" where
  "map_exn f [] = Inr []"
| "map_exn f (x # xs) =
     andThen (f x) (\<lambda>y. andThen (map_exn f xs) (\<lambda>ys. Inr (y # ys)))"

fun truthy_json :: "json \<Rightarrow> bool" where
  "truthy_json JNull = False"
| "truthy_json (JBool b) = b"
| "truthy_json (JNum n) = number_truthy n"
| "truthy_json (JStr s) = (s \<noteq> [])"
| "truthy_json (JArr xs) = True"
| "truthy_json (JObj kvs) = True"

definition truthy :: "jsval \<Rightarrow> bool" where
  "truthy v = (case v of None \<Rightarrow> False | Some j \<Rightarrow> truthy_json j)"

definition nullish :: "jsval \<Rightarrow> bool" where
  "nullish v = (case v of None \<Rightarrow> True | Some JNull \<Rightarrow> True | Some _ \<Rightarrow> False)"

text \<open>\<open>a || b\<close> and \<open>a ?? b\<close>.\<close>

definition js_or :: "jsval \<Rightarrow> jsval \<Rightarrow> jsval" where
  "js_or a b = (if truthy a then a else b)"

definition js_coalesce :: "jsval \<Rightarrow> jsval \<Rightarrow> jsval" where
  "js_coalesce a b = (if nullish a then b else a)"

text \<open>
  Reading property \<open>k\<close> of a value that is neither \<open>null\<close> nor \<open>undefined\<close>.  None of the
  property names the handler reads is defined on the prototype of a string, number,
  boolean, array or plain object, so only own properties of objects answer.
\<close>

fun own_prop :: "json \<Rightarrow> string \<Rightarrow> jsval" where
  "own_prop (JObj kvs) k = map_of kvs k"
| "own_prop j k = None"

text \<open>\<open>v.k\<close>: raises on \<open>null\<close> and \<open>undefined\<close>.\<close>

definition get_prop :: "jsval \<Rightarrow> string \<Rightarrow> exn + jsval" where
  "get_prop v k =
     (case v of None \<Rightarrow> Inl TypeError
      | Some JNull \<Rightarrow> Inl TypeError
      | Some j \<Rightarrow> Inr (own_prop j k))"

text \<open>\<open>v?.k\<close>.\<close>

definition opt_prop :: "jsval \<Rightarrow> string \<Rightarrow> jsval" where
  "opt_prop v k =
     (case v of None \<Rightarrow> None
      | Some JNull \<Rightarrow> None
      | Some j \<Rightarrow> own_prop j k)"

text \<open>\<open>v[0]\<close> on a value that is neither \<open>null\<close> nor \<open>undefined\<close>.\<close>

fun index0 :: "json \<Rightarrow> jsval" where
  "index0 (JArr xs) = (case xs of [] \<Rightarrow> None | x # _ \<Rightarrow> Some x)"
| "index0 (JStr s) = (case s of [] \<Rightarrow> None | c # _ \<Rightarrow> Some (JStr [c]))"
| "index0 (JObj kvs) = map_of kvs ''0''"
| "index0 j = None"

text \<open>\<open>v?.[0]\<close>.\<close>

definition opt_index0 :: "jsval \<Rightarrow> jsval" where
  "opt_index0 v =
     (case v of None \<Rightarrow> None
      | Some JNull \<Rightarrow> None
      | Some j \<Rightarrow> index0 j)"

subsection \<open>Conversion to strings\<close>

text \<open>
  The decimal text of a number (\<open>Number::toString\<close> of ECMA-262: the shortest digits
  that read back as the same double) is not unfolded here.  It is a parameter \<open>nt\<close> of
  the conversions below, and of the environment of a request.
\<close>

fun join :: "string \<Rightarrow> string list \<Rightarrow> string" where
  "join sep [] = []"
| "join sep [x] = x"
| "join sep (x # y # ys) = x @ sep @ join sep (y # ys)"

text \<open>
  \<open>ToString\<close>, as a template literal applies it.  An array joins its elements with
  commas, \<open>null\<close> elements giving the empty string.  A plain object answers through
  \<open>Object.prototype.toString\<close> with \<open>[object Object]\<close>, unless it has an own property
  \<open>toString\<close>: that one is a JSON value, not a function, so the conversion finds no
  method that returns a primitive and raises a \<open>TypeError\<close>.
\<close>

primrec to_string :: "(number \<Rightarrow> string) \<Rightarrow> json \<Rightarrow> exn + string" where
  "to_string nt JNull = Inr ''null''"
| "to_string nt (JBool b) = Inr (if b then ''true'' else ''false'')"
| "to_string nt (JNum n) = Inr (nt n)"
| "to_string nt (JStr s) = Inr s"
| "to_string nt (JArr xs) =
     andThen
       (map_exn (\<lambda>(x, r). if x = JNull then Inr [] else r) (zip xs (map (to_string nt) xs)))
       (\<lambda>parts. Inr (join '','' parts))"
| "to_string nt (JObj kvs) =
     (if map_of kvs ''toString'' = None then Inr ''[object Object]'' else Inl TypeError)"

definition hex_digit :: "nat \<Rightarrow> char" where
  "hex_digit n = (if n < 10 then char_of (48 + n) else char_of (87 + n))"

text \<open>\<open>QuoteJSONString\<close> of ECMA-262, on bytes.\<close>

definition quote_char :: "char \<Rightarrow> string" where
  "quote_char c =
     (if c = CHR 0x22 then [CHR 0x5C, CHR 0x22]
      else if c = CHR 0x5C then [CHR 0x5C, CHR 0x5C]
      else if c = CHR 0x08 then [CHR 0x5C, CHR ''b'']
      else if c = CHR 0x09 then [CHR 0x5C, CHR ''t'']
      else if c = CHR 0x0A then [CHR 0x5C, CHR ''n'']
      else if c = CHR 0x0C then [CHR 0x5C, CHR ''f'']
      else if c = CHR 0x0D then [CHR 0x5C, CHR ''r'']
      else if (of_char c :: nat) < 32
        then [CHR 0x5C, CHR ''u'', CHR ''0'', CHR ''0'',
              hex_digit (of_char c div 16), hex_digit (of_char c mod 16)]
      else [c])"

definition quote :: "string \<Rightarrow> string" where
  "quote s = [CHR 0x22] @ concat (map quote_char s) @ [CHR 0x22]"

definition indent :: "nat \<Rightarrow> string" where
  "indent d = replicate (2 * d) CHR '' ''"

text \<open>
  \<open>JSON.stringify(v, null, 2)\<close> on a JSON value, at nesting depth \<open>d\<close>: an empty array
  is \<open>[]\<close> and an empty object \<open>{}\<close>; otherwise one member per line, indented two
  spaces per level.  A number that is not finite is printed as \<open>null\<close>.
\<close>

primrec stringify :: "(number \<Rightarrow> string) \<Rightarrow> json \<Rightarrow> nat \<Rightarrow> string" where
  "stringify nt JNull = (\<lambda>d. ''null'')"
| "stringify nt (JBool b) = (\<lambda>d. if b then ''true'' else ''false'')"
| "stringify nt (JNum n) = (\<lambda>d. case n of Finite x \<Rightarrow> nt n | _ \<Rightarrow> ''null'')"
| "stringify nt (JStr s) = (\<lambda>d. quote s)"
| "stringify nt (JArr xs) = (\<lambda>d.
     if xs = [] then ''[]''
     else ''['' @ [CHR 0x0A] @ indent (d + 1)
          @ join ('','' @ [CHR 0x0A] @ indent (d + 1)) (map (\<lambda>x. stringify nt x (d + 1)) xs)
          @ [CHR 0x0A] @ indent d @ '']'')"
| "stringify nt (JObj kvs) = (\<lambda>d.
     if kvs = [] then ''{}''
     else ''{'' @ [CHR 0x0A] @ indent (d + 1)
          @ join ('','' @ [CHR 0x0A] @ indent (d + 1))
              (map (\<lambda>(k, s). quote k @ '': '' @ s)
                 (map (map_prod id (\<lambda>v. stringify nt v (d + 1))) kvs))
          @ [CHR 0x0A] @ indent d @ ''}'')"

definition js_to_string :: "(number \<Rightarrow> string) \<Rightarrow> jsval \<Rightarrow> exn + string" where
  "js_to_string nt v = (case v of None \<Rightarrow> Inr ''undefined'' | Some j \<Rightarrow> to_string nt j)"

subsection \<open>Data of the request pipeline\<close>

text \<open>What \<open>fetch\<close> resolves to: \<open>res.ok\<close>, \<open>res.status\<close>, \<open>res.text()\<close>, \<open>res.json()\<close>.\<close>

record http_response =
  res_ok :: bool
  res_status :: nat
  res_text :: "exn + string"
  res_json :: "exn + json"

text \<open>One normalized search result; a field that the raw item lacks is \<open>undefined\<close>.\<close>

record search_result =
  sr_type :: jsval
  sr_title :: jsval
  sr_link :: jsval
  sr_snippet :: jsval
  sr_image :: jsval
  sr_date :: jsval
  sr_channel :: jsval

text \<open>A message of the completion request: \<open>{role, name?, content}\<close>.\<close>

record chat_message =
  msg_role :: jsval
  msg_name :: "string option"
  msg_content :: jsval

record completion_request =
  req_model :: string
  req_temperature :: jsval
  req_max_tokens :: nat
  req_messages :: "chat_message list"

text \<open>
  The completion client's typed result: \<open>choices\<close> is an array, a choice's message may be
  missing (the handler reads it with \<open>?.\<close>), its \<open>content\<close> is a string or \<open>null\<close>.
\<close>

record completion_message =
  cm_content :: "string option"

record choice =
  ch_message :: "completion_message option"

record chat_completion =
  choices :: "choice list"

text \<open>A row handed to \<open>supabaseServiceRole.from("messages").insert\<close>.\<close>

record message_row =
  row_chat_id :: jsval
  row_user_id :: jsval
  row_assistant_id :: jsval
  row_role :: string
  row_content :: jsval
  row_model :: jsval
  row_sequence_number :: number
  row_image_paths :: "json list"

text \<open>
  The database client resolves every insert to \<open>{error, data}\<close>: it is created
  without \<open>throwOnError\<close>, so a failed request is reported in \<open>error\<close> and not
  raised.  A failed insert is one whose \<open>error\<close> is truthy.
\<close>

record insert_result =
  ins_error :: jsval
  ins_data :: jsval

text \<open>
  The environment of one request: the outcome of the status probe, of \<open>req.json()\<close>, of the
  search query (for each keyword), of the completion call (for each request) and of an
  insert (for each row), the deployment name read from the process environment, the
  text the engine gives a \<open>TypeError\<close> it raises, and the decimal text it gives a
  number.  The configuration values are taken to be present, so that building the
  completion client does not raise.
\<close>

record env =
  fetch_status :: "exn + http_response"
  request_json :: "exn + json"
  fetch_search :: "jsval \<Rightarrow> exn + http_response"
  create_completion :: "completion_request \<Rightarrow> exn + chat_completion"
  insert_messages :: "message_row \<Rightarrow> insert_result"
  AZURE_DEPLOYMENT :: string
  type_error_text :: string
  number_text :: "number \<Rightarrow> string"

text \<open>
  The external effects of a run, in order.  A console line is recorded by its label; the
  object printed after it is not modelled.
\<close>

datatype event =
    ProbeCall
  | SearchCall jsval
  | CompletionCall completion_request
  | InsertCall message_row
  | ConsoleLog string
  | ConsoleError string

datatype body = ErrorBody string | MessageBody string

text \<open>A response with its status, or an exception that leaves the handler.\<close>

datatype outcome = Response nat body | Uncaught exn

subsection \<open>checkConnection and fetchSearchResults\<close>

definition checkConnection :: "env \<Rightarrow> bool" where
  "checkConnection e = (case fetch_status e of Inl x \<Rightarrow> False | Inr res \<Rightarrow> res_ok res)"

definition fetchSearchResults :: "env \<Rightarrow> jsval \<Rightarrow> exn + json" where
  "fetchSearchResults e query =
     andThen (fetch_search e query) (\<lambda>res.
       if \<not> res_ok res
       then andThen (res_text res) (\<lambda>text.
              Inl (Thrown (''DataForSEO error ''
                             @ number_text e (Finite (of_nat (res_status res)))
                             @ '': '' @ text)))
       else res_json res)"

subsection \<open>Steps of the handler\<close>

definition offline_message :: string where
  "offline_message =
     [CHR 0xF0, CHR 0x9F, CHR 0x9A, CHR 0xAB] @ '' I'' @ [CHR 0x27]
     @ ''m not connected to the internet. Please try again later.''"

definition missing_query_message :: string where
  "missing_query_message =
     ''Missing '' @ [CHR 0x60] @ ''query'' @ [CHR 0x60] @ '' in request body''"

text \<open>\<open>const { query, chatSettings, messages } = await req.json()\<close>, after parsing.\<close>

definition destructure :: "json \<Rightarrow> exn + (jsval \<times> jsval \<times> jsval)" where
  "destructure b =
     andThen (get_prop (Some b) ''query'') (\<lambda>query.
     andThen (get_prop (Some b) ''chatSettings'') (\<lambda>chatSettings.
     andThen (get_prop (Some b) ''messages'') (\<lambda>messages.
       Inr (query, chatSettings, messages))))"

text \<open>\<open>df.tasks?.[0]?.result?.[0]?.items\<close> and \<open>(...) || []\<close>.\<close>

definition items_field :: "json \<Rightarrow> exn + jsval" where
  "items_field df =
     andThen (get_prop (Some df) ''tasks'') (\<lambda>tasks.
       Inr (opt_prop (opt_index0 (opt_prop (opt_index0 tasks) ''result'')) ''items''))"

definition search_items :: "json \<Rightarrow> exn + jsval" where
  "search_items df = andThen (items_field df) (\<lambda>v. Inr (js_or v (Some (JArr []))))"

text \<open>\<open>ts?.split(" ")[0]\<close>: only a string has \<open>split\<close>.\<close>

definition split_first :: "jsval \<Rightarrow> exn + jsval" where
  "split_first ts =
     (case ts of None \<Rightarrow> Inr None
      | Some JNull \<Rightarrow> Inr None
      | Some (JStr s) \<Rightarrow> Inr (Some (JStr (takeWhile (\<lambda>c. c \<noteq> CHR '' '') s)))
      | Some _ \<Rightarrow> Inl TypeError)"

definition normalize_item :: "json \<Rightarrow> exn + search_result" where
  "normalize_item i =
     andThen (get_prop (Some i) ''type'') (\<lambda>ty.
     andThen (get_prop (Some i) ''title'') (\<lambda>title.
     andThen (get_prop (Some i) ''url'') (\<lambda>url.
     andThen (get_prop (Some i) ''description'') (\<lambda>description.
     andThen (get_prop (Some i) ''images'') (\<lambda>images.
     andThen (get_prop (Some i) ''timestamp'') (\<lambda>timestamp.
     andThen (split_first timestamp) (\<lambda>date.
     andThen (get_prop (Some i) ''website_name'') (\<lambda>website_name.
       Inr \<lparr>sr_type = ty, sr_title = title, sr_link = url, sr_snippet = description,
            sr_image = opt_prop (opt_index0 images) ''url'', sr_date = date,
            sr_channel = website_name\<rparr>))))))))"

text \<open>\<open>items.map(...)\<close>: only an array has \<open>map\<close>.\<close>

definition normalize :: "jsval \<Rightarrow> exn + search_result list" where
  "normalize items =
     (case items of Some (JArr xs) \<Rightarrow> map_exn normalize_item xs | _ \<Rightarrow> Inl TypeError)"

text \<open>
  Step 6: \<open>messages.map(m => ...)\<close> and \<open>.filter(m => !!m)\<close>.  An entry maps to
  \<open>{role, content}\<close> or to \<open>null\<close> (\<open>None\<close>).
\<close>

definition history_entry :: "json \<Rightarrow> exn + chat_message option" where
  "history_entry m =
     andThen (get_prop (Some m) ''message'') (\<lambda>mm.
       let msg = js_coalesce mm (Some m) in
       andThen (get_prop msg ''role'') (\<lambda>r.
         if truthy r
         then andThen (get_prop msg ''content'') (\<lambda>c.
                if truthy c
                then Inr (Some \<lparr>msg_role = r, msg_name = None, msg_content = c\<rparr>)
                else Inr None)
         else Inr None))"

definition not_null :: "'a option list \<Rightarrow> 'a list" where
  "not_null ms = map the (filter (\<lambda>m. m \<noteq> None) ms)"

definition build_history :: "jsval \<Rightarrow> exn + chat_message list" where
  "build_history messages =
     (case messages of
        Some (JArr ms) \<Rightarrow> andThen (map_exn history_entry ms) (\<lambda>hs. Inr (not_null hs))
      | _ \<Rightarrow> Inr [])"

text \<open>Step 7: the three fixed messages.\<close>

definition systemMsg :: chat_message where
  "systemMsg =
     \<lparr>msg_role = Some (JStr ''system''), msg_name = None,
      msg_content = Some (JStr
        (''You are ChatGPT, a helpful assistant. You have access to up-to-date web search ''
         @ ''results below. Use them to answer the user'' @ [CHR 0x27]
         @ ''s question fully'' @ [CHR 0xE2, CHR 0x80, CHR 0x94]
         @ ''choose whatever structure best fits the topic. ''
         @ ''Cite sources by number when relevant.''))\<rparr>"

definition field :: "string \<Rightarrow> jsval \<Rightarrow> (string \<times> json) list" where
  "field k v = (case v of None \<Rightarrow> [] | Some j \<Rightarrow> [(k, j)])"

text \<open>The object \<open>JSON.stringify\<close> sees: a property whose value is \<open>undefined\<close> is left out.\<close>

definition search_result_json :: "search_result \<Rightarrow> json" where
  "search_result_json r =
     JObj (field ''type'' (sr_type r) @ field ''title'' (sr_title r)
           @ field ''link'' (sr_link r) @ field ''snippet'' (sr_snippet r)
           @ field ''image'' (sr_image r) @ field ''date'' (sr_date r)
           @ field ''channel'' (sr_channel r))"

definition toolMsg :: "(number \<Rightarrow> string) \<Rightarrow> search_result list \<Rightarrow> chat_message" where
  "toolMsg nt search_results =
     \<lparr>msg_role = Some (JStr ''assistant''), msg_name = Some ''web_search_tool'',
      msg_content =
        Some (JStr (stringify nt (JArr (map search_result_json search_results)) 0))\<rparr>"

text \<open>The template literal converts \<open>query\<close> to a string, which can raise.\<close>

definition userMsg :: "(number \<Rightarrow> string) \<Rightarrow> jsval \<Rightarrow> exn + chat_message" where
  "userMsg nt query =
     andThen (js_to_string nt query) (\<lambda>text.
       Inr \<lparr>msg_role = Some (JStr ''user''), msg_name = None,
            msg_content = Some (JStr
              (''User asked: '' @ [CHR 0x22] @ text @ [CHR 0x22]
               @ ''. Use the search results above to craft your reply.''))\<rparr>)"

text \<open>
  Steps 3 to 8, from the search response to the argument of
  \<open>client.chat.completions.create\<close>.  The last \<open>.filter(m => m !== null)\<close> runs over the
  assembled array.
\<close>

definition build_request ::
  "env \<Rightarrow> jsval \<Rightarrow> jsval \<Rightarrow> jsval \<Rightarrow> json \<Rightarrow> exn + completion_request" where
  "build_request e query chatSettings messages df =
     andThen (search_items df) (\<lambda>items.
     andThen (normalize items) (\<lambda>search_results.
     andThen (build_history messages) (\<lambda>history.
     andThen (userMsg (number_text e) query) (\<lambda>user_message.
       Inr \<lparr>req_model = AZURE_DEPLOYMENT e,
            req_temperature =
              js_coalesce (opt_prop chatSettings ''temperature'') (Some (JNum (Finite 0))),
            req_max_tokens = 1200,
            req_messages =
              not_null (map Some ([systemMsg, toolMsg (number_text e) search_results,
                                   user_message] @ history))\<rparr>))))"

subsection \<open>Persistence\<close>

record persist_ids =
  chat_id :: jsval
  user_id :: jsval
  assistant_id :: jsval
  lastSeq :: number

text \<open>
  The identifiers and the cursor \<open>lastSeq\<close>, read from the last entry of \<open>messages\<close>
  (its \<open>message\<close> field when that is truthy); all \<open>null\<close> and \<open>0\<close> when \<open>messages\<close> is
  not a non-empty array.  \<open>messages.length - 1\<close> is the sum of the length and \<open>-1\<close>.
\<close>

definition persistence_ids :: "jsval \<Rightarrow> exn + persist_ids" where
  "persistence_ids messages =
     (case messages of
        Some (JArr ms) \<Rightarrow>
          if length ms > 0
          then andThen (get_prop (Some (last ms)) ''message'') (\<lambda>mm.
                 let lastUserMsg = js_or mm (Some (last ms)) in
                 andThen (get_prop lastUserMsg ''chat_id'') (\<lambda>c.
                 andThen (get_prop lastUserMsg ''user_id'') (\<lambda>u.
                 andThen (get_prop lastUserMsg ''assistant_id'') (\<lambda>a.
                 andThen (get_prop lastUserMsg ''sequence_number'') (\<lambda>sn.
                   Inr \<lparr>chat_id = js_or c (Some JNull), user_id = js_or u (Some JNull),
                        assistant_id = js_or a (Some JNull),
                        lastSeq =
                          (case sn of Some (JNum n) \<Rightarrow> n
                           | _ \<Rightarrow> js_add (Finite (of_nat (length ms))) (Finite (- 1)))\<rparr>)))))
          else Inr \<lparr>chat_id = Some JNull, user_id = Some JNull,
                    assistant_id = Some JNull, lastSeq = Finite 0\<rparr>
      | _ \<Rightarrow> Inr \<lparr>chat_id = Some JNull, user_id = Some JNull,
                  assistant_id = Some JNull, lastSeq = Finite 0\<rparr>)"

text \<open>\<open>resp.choices[0]?.message?.content ?? ""\<close>.\<close>

definition assistant_content :: "chat_completion \<Rightarrow> string" where
  "assistant_content resp =
     (case choices resp of
        [] \<Rightarrow> []
      | c # _ \<Rightarrow>
          (case ch_message c of
             None \<Rightarrow> []
           | Some m \<Rightarrow> (case cm_content m of None \<Rightarrow> [] | Some s \<Rightarrow> s)))"

definition model_of :: "env \<Rightarrow> jsval \<Rightarrow> jsval" where
  "model_of e chatSettings =
     js_or (opt_prop chatSettings ''model'') (Some (JStr (AZURE_DEPLOYMENT e)))"

definition user_row :: "env \<Rightarrow> persist_ids \<Rightarrow> jsval \<Rightarrow> jsval \<Rightarrow> message_row" where
  "user_row e ids query chatSettings =
     \<lparr>row_chat_id = chat_id ids, row_user_id = user_id ids,
      row_assistant_id = assistant_id ids, row_role = ''user'', row_content = query,
      row_model = model_of e chatSettings,
      row_sequence_number = js_add (lastSeq ids) (Finite 1), row_image_paths = []\<rparr>"

definition assistant_row :: "env \<Rightarrow> persist_ids \<Rightarrow> string \<Rightarrow> jsval \<Rightarrow> message_row" where
  "assistant_row e ids assistantContent chatSettings =
     \<lparr>row_chat_id = chat_id ids, row_user_id = user_id ids,
      row_assistant_id = assistant_id ids, row_role = ''assistant'',
      row_content = Some (JStr assistantContent),
      row_model = model_of e chatSettings,
      row_sequence_number = js_add (lastSeq ids) (Finite 2), row_image_paths = []\<rparr>"

text \<open>One insert and the console line that follows it.\<close>

definition insert_and_log :: "env \<Rightarrow> message_row \<Rightarrow> string \<Rightarrow> string \<Rightarrow> event list" where
  "insert_and_log e row err_label ok_label =
     [InsertCall row,
      if truthy (ins_error (insert_messages e row)) then ConsoleError err_label
      else ConsoleLog ok_label]"

text \<open>
  The persistence part of the \<open>try\<close> block, after the completion call returned \<open>resp\<close>:
  the content to answer with, or the exception raised, and the effects performed.
\<close>

definition persist ::
  "env \<Rightarrow> jsval \<Rightarrow> jsval \<Rightarrow> jsval \<Rightarrow> chat_completion \<Rightarrow> (exn + string) \<times> event list" where
  "persist e query chatSettings messages resp =
     (case persistence_ids messages of
        Inl x \<Rightarrow> (Inl x, [])
      | Inr ids \<Rightarrow>
          let assistantContent = assistant_content resp in
          (Inr assistantContent,
           [ConsoleLog ''[WebSearch API] Persisting user message:'']
           @ (if truthy (chat_id ids) \<and> truthy (user_id ids) \<and> truthy query
              then insert_and_log e (user_row e ids query chatSettings)
                     ''[WebSearch API] User message insert error:''
                     ''[WebSearch API] User message insert success:''
              else [])
           @ (if truthy (chat_id ids) \<and> truthy (user_id ids) \<and> assistantContent \<noteq> []
              then insert_and_log e (assistant_row e ids assistantContent chatSettings)
                     ''[WebSearch API] Assistant message insert error:''
                     ''[WebSearch API] Assistant message insert success:''
              else [])))"

subsection \<open>The handler\<close>

text \<open>The body of the \<open>try\<close> block: its result and its effects.\<close>

definition try_block ::
  "env \<Rightarrow> jsval \<Rightarrow> jsval \<Rightarrow> jsval \<Rightarrow> (exn + string) \<times> event list" where
  "try_block e query chatSettings messages =
     (case fetchSearchResults e query of
        Inl x \<Rightarrow> (Inl x, [SearchCall query])
      | Inr df \<Rightarrow>
          (case build_request e query chatSettings messages df of
             Inl x \<Rightarrow> (Inl x, [SearchCall query])
           | Inr creq \<Rightarrow>
               (case create_completion e creq of
                  Inl x \<Rightarrow> (Inl x, [SearchCall query, CompletionCall creq])
                | Inr resp \<Rightarrow>
                    (case persist e query chatSettings messages resp of
                       (r, evs) \<Rightarrow> (r, [SearchCall query, CompletionCall creq] @ evs)))))"

definition exn_message :: "env \<Rightarrow> exn \<Rightarrow> string" where
  "exn_message e x = (case x of TypeError \<Rightarrow> type_error_text e | Thrown m \<Rightarrow> m)"

text \<open>\<open>err.message || "Unexpected server error"\<close>.\<close>

definition error_text :: "env \<Rightarrow> exn \<Rightarrow> string" where
  "error_text e x =
     (if exn_message e x \<noteq> [] then exn_message e x else ''Unexpected server error'')"

definition POST :: "env \<Rightarrow> outcome \<times> event list" where
  "POST e =
     (if \<not> checkConnection e
      then (Response 503 (ErrorBody offline_message), [ProbeCall])
      else
        (case request_json e of
           Inl x \<Rightarrow> (Uncaught x, [ProbeCall])
         | Inr b \<Rightarrow>
             (case destructure b of
                Inl x \<Rightarrow> (Uncaught x, [ProbeCall])
              | Inr (query, chatSettings, messages) \<Rightarrow>
                  if \<not> truthy query
                  then (Response 400 (ErrorBody missing_query_message), [ProbeCall])
                  else
                    (case try_block e query chatSettings messages of
                       (Inr content, evs) \<Rightarrow>
                         (Response 200 (MessageBody content), ProbeCall # evs)
                     | (Inl err, evs) \<Rightarrow>
                         (Response 500 (ErrorBody (error_text e err)),
                          ProbeCall # evs @ [ConsoleError ''web-search error:''])))))"

subsection \<open>A sample request\<close>

text \<open>
  The example of the specification: the query \<open>weather in Paris\<close>, a reachable search
  provider that answers with the given raw items, a completion that answers \<open>Sunny\<close>,
  and a database that accepts every row.  The history and the raw items are parameters.
\<close>

fun digits :: "nat \<Rightarrow> string" where
  "digits n =
     (if n < 10 then [char_of (48 + n)]
      else digits (n div 10) @ [char_of (48 + n mod 10)])"

declare digits.simps [simp del]

text \<open>
  The decimal text of the integers below \<open>10 ^ 21\<close> and of the numbers that are not
  finite, as \<open>Number::toString\<close> gives it.  The sample runs print no other number.
\<close>

definition integer_text :: "number \<Rightarrow> string" where
  "integer_text n =
     (case n of
        Finite x \<Rightarrow>
          (case quotient_of x of
             (p, q) \<Rightarrow>
               if q = 1 \<and> \<bar>p\<bar> < 10 ^ 21
               then (if p < 0 then ''-'' @ digits (nat (- p)) else digits (nat p))
               else [])
      | PosInfinity \<Rightarrow> ''Infinity''
      | NegInfinity \<Rightarrow> ''-Infinity''
      | NaN \<Rightarrow> ''NaN'')"

definition sample_item :: json where
  "sample_item =
     JObj [(''type'', JStr ''organic''), (''title'', JStr ''Paris Weather''),
           (''url'', JStr ''https://x''), (''description'', JStr ''...''),
           (''timestamp'', JStr ''2024-01-01 00:00:00''),
           (''website_name'', JStr ''x.com'')]"

definition sample_df :: "json list \<Rightarrow> json" where
  "sample_df items =
     JObj [(''tasks'', JArr [JObj [(''result'', JArr [JObj [(''items'', JArr items)]])]])]"

definition ok_response :: "json \<Rightarrow> http_response" where
  "ok_response j = \<lparr>res_ok = True, res_status = 200, res_text = Inr [], res_json = Inr j\<rparr>"

definition sample_entry :: json where
  "sample_entry =
     JObj [(''message'',
            JObj [(''role'', JStr ''user''), (''content'', JStr ''hi''),
                  (''chat_id'', JStr ''c1''), (''user_id'', JStr ''u1''),
                  (''sequence_number'', JNum (Finite 4))])]"

definition sample_body :: "json list \<Rightarrow> json" where
  "sample_body ms = JObj [(''query'', JStr ''weather in Paris''), (''messages'', JArr ms)]"

definition sample_completion :: chat_completion where
  "sample_completion =
     \<lparr>choices = [\<lparr>ch_message = Some \<lparr>cm_content = Some ''Sunny''\<rparr>\<rparr>]\<rparr>"

definition sample_env :: "json list \<Rightarrow> json list \<Rightarrow> env" where
  "sample_env ms items =
     \<lparr>fetch_status = Inr (ok_response JNull),
      request_json = Inr (sample_body ms),
      fetch_search = (\<lambda>q. Inr (ok_response (sample_df items))),
      create_completion = (\<lambda>r. Inr sample_completion),
      insert_messages = (\<lambda>row. \<lparr>ins_error = Some JNull, ins_data = Some JNull\<rparr>),
      AZURE_DEPLOYMENT = ''gpt-4-turbo'',
      type_error_text = ''Cannot read properties of null'',
      number_text = integer_text\<rparr>"

subsection \<open>The specification's reading of history and cursor\<close>

text \<open>
  History reconciliation as the specification describes it: unwrap one envelope level,
  keep the entries that expose a role and a content, in their order.
\<close>

definition unwrap_entry :: "json \<Rightarrow> json" where
  "unwrap_entry m = (case own_prop m ''message'' of None \<Rightarrow> m | Some JNull \<Rightarrow> m | Some j \<Rightarrow> j)"

definition exposes_turn :: "json \<Rightarrow> bool" where
  "exposes_turn msg = (truthy (own_prop msg ''role'') \<and> truthy (own_prop msg ''content''))"

definition turn_of :: "json \<Rightarrow> chat_message" where
  "turn_of msg =
     \<lparr>msg_role = own_prop msg ''role'', msg_name = None, msg_content = own_prop msg ''content''\<rparr>"

definition reconciled_history :: "json list \<Rightarrow> chat_message list" where
  "reconciled_history ms = map turn_of (filter exposes_turn (map unwrap_entry ms))"

text \<open>
  The entry the persistence step reads: the last entry of the history, or its \<open>message\<close>
  field when that is truthy.
\<close>

definition last_turn :: "json list \<Rightarrow> json" where
  "last_turn ms =
     (case own_prop (last ms) ''message'' of
        None \<Rightarrow> last ms
      | Some j \<Rightarrow> if truthy_json j then j else last ms)"

text \<open>
  The sequence cursor: the entry's \<open>sequence_number\<close> when it is a number, otherwise the
  index of the last entry, the length of the history minus one.
\<close>

definition sequence_cursor :: "json list \<Rightarrow> number" where
  "sequence_cursor ms =
     (case own_prop (last_turn ms) ''sequence_number'' of
        Some (JNum n) \<Rightarrow> n
      | _ \<Rightarrow> Finite (of_int (int (length ms) - 1)))"

text \<open>The cursor with the fallback the specification names: the history's length.\<close>

definition cursor_falling_back_to_length :: "json list \<Rightarrow> number" where
  "cursor_falling_back_to_length ms =
     (case own_prop (last_turn ms) ''sequence_number'' of
        Some (JNum n) \<Rightarrow> n
      | _ \<Rightarrow> Finite (of_nat (length ms)))"

text \<open>The rows a run inserted, in order, and their role and sequence number.\<close>

fun inserted_rows :: "event list \<Rightarrow> message_row list" where
  "inserted_rows [] = []"
| "inserted_rows (InsertCall row # evs) = row # inserted_rows evs"
| "inserted_rows (ev # evs) = inserted_rows evs"

definition inserted_positions :: "event list \<Rightarrow> (string \<times> number) list" where
  "inserted_positions evs = map (\<lambda>r. (row_role r, row_sequence_number r)) (inserted_rows evs)"

text \<open>The completion requests a run issued, in order.\<close>

fun completion_calls :: "event list \<Rightarrow> completion_request list" where
  "completion_calls [] = []"
| "completion_calls (CompletionCall c # evs) = c # completion_calls evs"
| "completion_calls (ev # evs) = completion_calls evs"

fun search_calls :: "event list \<Rightarrow> jsval list" where
  "search_calls [] = []"
| "search_calls (SearchCall q # evs) = q # search_calls evs"
| "search_calls (ev # evs) = search_calls evs"

subsection \<open>Variations of the sample request\<close>

text \<open>The probe cannot reach the provider, or the provider refuses it.\<close>

definition unreachable_env :: env where
  "unreachable_env = (sample_env [] [])\<lparr>fetch_status := Inl (Thrown ''fetch failed'')\<rparr>"

definition refused_env :: env where
  "refused_env =
     (sample_env [] [])\<lparr>fetch_status :=
        Inr \<lparr>res_ok = False, res_status = 401, res_text = Inr ''Unauthorized'',
             res_json = Inl (Thrown ''Unexpected token'')\<rparr>\<rparr>"

text \<open>The body is not JSON.\<close>

definition unparsable_env :: env where
  "unparsable_env =
     (sample_env [] [])\<lparr>request_json := Inl (Thrown ''Unexpected end of JSON input'')\<rparr>"

text \<open>The body has no \<open>query\<close>, or an empty one.\<close>

definition no_query_env :: env where
  "no_query_env = (sample_env [] [])\<lparr>request_json := Inr (JObj [])\<rparr>"

definition empty_query_env :: env where
  "empty_query_env =
     (sample_env [] [])\<lparr>request_json := Inr (JObj [(''query'', JStr [])])\<rparr>"

text \<open>The body has no \<open>query\<close> and the probe fails.\<close>

definition no_query_unreachable_env :: env where
  "no_query_unreachable_env = no_query_env\<lparr>fetch_status := Inl (Thrown ''fetch failed'')\<rparr>"

text \<open>History entries: flat, with falsy content, and a history that mixes shapes.\<close>

definition flat_entry :: json where
  "flat_entry = JObj [(''role'', JStr ''assistant''), (''content'', JStr ''yo'')]"

definition empty_content_entry :: json where
  "empty_content_entry = JObj [(''role'', JStr ''user''), (''content'', JStr [])]"

definition mixed_history :: "json list" where
  "mixed_history = [sample_entry, JNum (Finite 5), empty_content_entry, flat_entry]"

text \<open>The normalized form of \<open>sample_item\<close> and the request the sample run assembles.\<close>

definition sample_result :: search_result where
  "sample_result =
     \<lparr>sr_type = Some (JStr ''organic''), sr_title = Some (JStr ''Paris Weather''),
      sr_link = Some (JStr ''https://x''), sr_snippet = Some (JStr ''...''),
      sr_image = None, sr_date = Some (JStr ''2024-01-01''),
      sr_channel = Some (JStr ''x.com'')\<rparr>"

definition sample_turn :: chat_message where
  "sample_turn =
     \<lparr>msg_role = Some (JStr ''user''), msg_name = None, msg_content = Some (JStr ''hi'')\<rparr>"

definition sample_user_message :: chat_message where
  "sample_user_message =
     \<lparr>msg_role = Some (JStr ''user''), msg_name = None,
      msg_content = Some (JStr
        (''User asked: '' @ [CHR 0x22] @ ''weather in Paris'' @ [CHR 0x22]
         @ ''. Use the search results above to craft your reply.''))\<rparr>"

definition sample_request :: "search_result list \<Rightarrow> completion_request" where
  "sample_request rs =
     \<lparr>req_model = ''gpt-4-turbo'', req_temperature = Some (JNum (Finite 0)),
      req_max_tokens = 1200,
      req_messages = [systemMsg, toolMsg integer_text rs, sample_user_message, sample_turn]\<rparr>"



text \<open>The completion call raises.\<close>

definition failing_completion_env :: env where
  "failing_completion_env =
     (sample_env [sample_entry] [sample_item])
       \<lparr>create_completion := (\<lambda>r. Inl (Thrown ''429 Rate limit reached''))\<rparr>"

text \<open>The database rejects every row.\<close>

definition failing_insert :: "message_row \<Rightarrow> insert_result" where
  "failing_insert row =
     \<lparr>ins_error = Some (JObj [(''message'', JStr ''duplicate key'')]), ins_data = Some JNull\<rparr>"

definition failing_insert_env :: env where
  "failing_insert_env =
     (sample_env [sample_entry] [sample_item])\<lparr>insert_messages := failing_insert\<rparr>"

text \<open>A flat history entry with identifiers and no sequence number.\<close>

definition unnumbered_entry :: json where
  "unnumbered_entry =
     JObj [(''role'', JStr ''user''), (''content'', JStr ''hi''),
           (''chat_id'', JStr ''c1''), (''user_id'', JStr ''u1'')]"

text \<open>The labels of the error lines a run printed, and the line a failed insert prints.\<close>

fun console_errors :: "event list \<Rightarrow> string list" where
  "console_errors [] = []"
| "console_errors (ConsoleError l # evs) = l # console_errors evs"
| "console_errors (ev # evs) = console_errors evs"

definition insert_error_label :: "message_row \<Rightarrow> string" where
  "insert_error_label r =
     ''[WebSearch API] '' @ (if row_role r = ''user'' then ''User'' else ''Assistant'')
     @ '' message insert error:''"

text \<open>The request the sample run assembles for a given history and no search result.\<close>

definition sample_request_with :: "chat_message list \<Rightarrow> completion_request" where
  "sample_request_with history =
     \<lparr>req_model = ''gpt-4-turbo'', req_temperature = Some (JNum (Finite 0)),
      req_max_tokens = 1200,
      req_messages = [systemMsg, toolMsg integer_text [], sample_user_message] @ history\<rparr>"

text \<open>
  History entries whose sequence number is \<open>2 ^ 53\<close>, where adding 1 is no longer
  exact, and a fraction.
\<close>

definition large_entry :: json where
  "large_entry =
     JObj [(''role'', JStr ''user''), (''content'', JStr ''hi''),
           (''chat_id'', JStr ''c1''), (''user_id'', JStr ''u1''),
           (''sequence_number'', JNum (Finite 9007199254740992))]"

definition fraction_entry :: json where
  "fraction_entry =
     JObj [(''role'', JStr ''user''), (''content'', JStr ''hi''),
           (''chat_id'', JStr ''c1''), (''user_id'', JStr ''u1''),
           (''sequence_number'', JNum (Finite (3 / 2)))]"


text \<open>The serialized search results of the sample run, as \<open>JSON.stringify\<close> prints them.\<close>

definition sample_tool_text :: string where
  "sample_tool_text =
        ''['' @ [CHR 0x0A] @ ''  {'' @ [CHR 0x0A] @ ''    '' @ [CHR 0x22] @ ''type''
       @ [CHR 0x22] @ '': '' @ [CHR 0x22] @ ''organic'' @ [CHR 0x22] @ '',''
       @ [CHR 0x0A] @ ''    '' @ [CHR 0x22] @ ''title'' @ [CHR 0x22] @ '': ''
       @ [CHR 0x22] @ ''Paris Weather'' @ [CHR 0x22] @ '','' @ [CHR 0x0A] @ ''    ''
       @ [CHR 0x22] @ ''link'' @ [CHR 0x22] @ '': '' @ [CHR 0x22] @ ''https://x''
       @ [CHR 0x22] @ '','' @ [CHR 0x0A] @ ''    '' @ [CHR 0x22] @ ''snippet''
       @ [CHR 0x22] @ '': '' @ [CHR 0x22] @ ''...'' @ [CHR 0x22] @ '','' @ [CHR 0x0A]
       @ ''    '' @ [CHR 0x22] @ ''date'' @ [CHR 0x22] @ '': '' @ [CHR 0x22]
       @ ''2024-01-01'' @ [CHR 0x22] @ '','' @ [CHR 0x0A] @ ''    '' @ [CHR 0x22]
       @ ''channel'' @ [CHR 0x22] @ '': '' @ [CHR 0x22] @ ''x.com''
       @ [CHR 0x22, CHR 0x0A] @ ''  }'' @ [CHR 0x0A] @ '']''"

section \<open>Facts about the steps\<close>

subsection \<open>Numbers\<close>

lemma bit_length_bounds:
  "0 < n \<Longrightarrow> 2 ^ (bit_length n - 1) \<le> n \<and> n < 2 ^ bit_length n"
proof (induction n rule: bit_length.induct)
  case (1 n)
  show ?case
  proof (cases "n div 2 = 0")
    case True
    with "1.prems" have "n = 1" by presburger
    then show ?thesis by (simp add: bit_length.simps [of 1] bit_length.simps [of 0])
  next
    case False
    with "1.prems" have pos: "0 < n div 2" by presburger
    from "1.IH" [OF _ pos] "1.prems"
    have ih: "2 ^ (bit_length (n div 2) - 1) \<le> n div 2" "n div 2 < 2 ^ bit_length (n div 2)"
      by simp_all
    have bl: "bit_length n = Suc (bit_length (n div 2))"
      using "1.prems" by (simp add: bit_length.simps [of n])
    have bpos: "0 < bit_length (n div 2)"
      using pos by (simp add: bit_length.simps [of "n div 2"])
    then obtain b where b: "bit_length (n div 2) = Suc b" by (cases "bit_length (n div 2)") auto
    from ih b have "2 * 2 ^ b \<le> n" "n < 2 * 2 ^ Suc b" by simp_all
    with bl b show ?thesis by simp
  qed
qed

lemma pow2_nonneg: "0 \<le> k \<Longrightarrow> pow2 k = 2 ^ nat k"
  by (simp add: pow2_def)

lemma pow2_pos [simp]: "0 < pow2 k"
  by (simp add: pow2_def)

lemma binary_exponent_of_int:
  assumes "0 < k"
  shows "binary_exponent (of_int k) = int (bit_length k) - 1"
proof -
  have one: "bit_length 1 = 1"
    by (simp add: bit_length.simps [of 1] bit_length.simps [of 0])
  have bpos: "0 < bit_length k"
    using assms by (simp add: bit_length.simps [of k])
  from bit_length_bounds [OF assms] have "2 ^ (bit_length k - 1) \<le> k" by simp
  then have "(of_int (2 ^ (bit_length k - 1)) :: rat) \<le> of_int k"
    by (simp only: of_int_le_iff)
  then have le: "(2 :: rat) ^ (bit_length k - 1) \<le> of_int k" by simp
  have d: "nat (int (bit_length k) - 1) = bit_length k - 1" by simp
  have "pow2 (int (bit_length k) - 1) \<le> of_int k"
    using bpos le by (simp add: pow2_def d)
  then show ?thesis
    using bpos by (simp add: binary_exponent_def one Let_def)
qed

lemma round_half_even_of_int [simp]: "round_half_even (of_int j) = j"
  by (simp add: round_half_even_def)

lemma round_double_eq:
  assumes "x \<noteq> 0" and "\<bar>x\<bar> = a" and "max (binary_exponent a - 52) (- 1074) = u"
    and "of_int (round_half_even (a / pow2 u)) * pow2 u = y" and "\<not> pow2 1024 \<le> y"
  shows "round_double x = Finite (if 0 < x then y else - y)"
  unfolding round_double_def Let_def assms(2) assms(3) assms(4)
  using assms(1,5) by simp

lemma round_double_of_int:
  assumes "\<bar>n\<bar> \<le> 2 ^ 53"
  shows "round_double (of_int n) = Finite (of_int n)"
proof (cases "n = 0")
  case True
  then show ?thesis by (simp add: round_double_def)
next
  case False
  define k where "k = \<bar>n\<bar>"
  have kpos: "0 < k" and kle: "k \<le> 2 ^ 53" using False assms by (simp_all add: k_def)
  have a: "\<bar>of_int n :: rat\<bar> = of_int k" by (simp add: k_def)
  define u where "u = int (bit_length k) - 53"
  from bit_length_bounds [OF kpos] kle have "(2::int) ^ (bit_length k - 1) \<le> 2 ^ 53" by linarith
  then have blk: "bit_length k - 1 \<le> 53"
    using power_le_imp_le_exp [of "2::int" "bit_length k - 1" 53] by simp
  have bpos: "0 < bit_length k" using kpos by (simp add: bit_length.simps [of k])
  have ue: "max (binary_exponent (of_int k) - 52) (- 1074) = u"
    using bpos by (simp add: binary_exponent_of_int [OF kpos] u_def)
  have y: "of_int (round_half_even (of_int k / pow2 u)) * pow2 u = (of_int k :: rat)"
  proof (cases "u \<le> 0")
    case True
    have p: "pow2 u = 1 / 2 ^ nat (- u)"
      using True by (cases "u = 0") (simp_all add: pow2_def)
    have "of_int k / pow2 u = (of_int (k * 2 ^ nat (- u)) :: rat)"
      by (simp add: p)
    then have "of_int (round_half_even (of_int k / pow2 u)) = (of_int (k * 2 ^ nat (- u)) :: rat)"
      by (simp only: round_half_even_of_int)
    then show ?thesis by (simp add: p)
  next
    case False
    with blk bpos have u1: "u = 1" and b54: "bit_length k = 54" by (simp_all add: u_def)
    from bit_length_bounds [OF kpos] b54 have "2 ^ 53 \<le> k" by simp
    with kle have k53: "k = 2 ^ 53" by simp
    have "of_int k / pow2 u = (of_int (2 ^ 52) :: rat)"
      by (simp add: u1 k53 pow2_def)
    then have "of_int (round_half_even (of_int k / pow2 u)) = (of_int (2 ^ 52) :: rat)"
      by (simp only: round_half_even_of_int)
    then show ?thesis by (simp add: u1 k53 pow2_def)
  qed
  have "(of_int k :: rat) \<le> of_int (2 ^ 53)" using kle by (simp only: of_int_le_iff)
  also have "\<dots> < 2 ^ 1024" by simp
  finally have small: "\<not> pow2 1024 \<le> (of_int k :: rat)" by (simp add: pow2_def)
  have sgn: "0 < n \<Longrightarrow> k = n" "\<not> 0 < n \<Longrightarrow> - (of_int k :: rat) = of_int n"
    by (simp_all add: k_def)
  from False have nz: "(of_int n :: rat) \<noteq> 0" by simp
  from round_double_eq [OF nz a ue y small] sgn show ?thesis
    by (cases "0 < n") simp_all
qed

lemma js_add_int:
  assumes "\<bar>c + d\<bar> \<le> 2 ^ 53"
  shows "js_add (Finite (of_int c)) (Finite (of_int d)) = Finite (of_int (c + d))"
  using round_double_of_int [OF assms] by simp

lemma round_double_numeral [simp]:
  "(numeral w :: int) \<le> 2 ^ 53 \<Longrightarrow> round_double (numeral w) = Finite (numeral w)"
  using round_double_of_int [of "numeral w"] by simp

lemma round_double_one [simp]: "round_double 1 = Finite 1"
  using round_double_of_int [of 1] by simp

lemma floor_numeral_quotient [simp]:
  "\<lfloor>numeral a / numeral b :: rat\<rfloor> = numeral a div numeral b"
  using floor_divide_of_int_eq [of "numeral a" "numeral b", where ?'a = rat] by simp

lemmas round_eval =
  round_double_def binary_exponent_def Let_def pow2_def round_half_even_def bit_length.simps

lemma round_double_zero [simp]: "round_double 0 = Finite 0"
  by (simp add: round_double_def)

lemma length_minus_one:
  assumes "length ms < 2 ^ 32"
  shows "js_add (Finite (of_nat (length ms))) (Finite (- 1))
           = Finite (of_int (int (length ms) - 1))"
proof -
  have "\<bar>int (length ms) + (- 1)\<bar> \<le> 2 ^ 53" using assms by simp
  from js_add_int [OF this] show ?thesis by simp
qed

subsection \<open>Steps\<close>

lemma andThen_Inr [simp]: "andThen (Inr x) f = f x"
  by (simp add: andThen_def)

lemma andThen_Inl [simp]: "andThen (Inl x) f = Inl x"
  by (simp add: andThen_def)

lemma andThen_eq_Inr: "andThen r f = Inr y \<longleftrightarrow> (\<exists>x. r = Inr x \<and> f x = Inr y)"
  by (cases r) simp_all

lemma get_prop_Some: "j \<noteq> JNull \<Longrightarrow> get_prop (Some j) k = Inr (own_prop j k)"
  by (cases j) (simp_all add: get_prop_def)

lemma get_prop_null [simp]: "get_prop (Some JNull) k = Inl TypeError"
  by (simp add: get_prop_def)

lemma not_null_Some [simp]: "not_null (map Some xs) = xs"
  by (induction xs) (simp_all add: not_null_def)

lemma map_exn_append:
  "map_exn f (xs @ ys) =
     andThen (map_exn f xs) (\<lambda>a. andThen (map_exn f ys) (\<lambda>b. Inr (a @ b)))"
proof (induction xs)
  case Nil
  show ?case by (cases "map_exn f ys") simp_all
next
  case (Cons x xs)
  show ?case
  proof (cases "f x")
    case (Inl e)
    then show ?thesis by simp
  next
    case (Inr y)
    then show ?thesis using Cons
      by (cases "map_exn f xs"; cases "map_exn f ys") simp_all
  qed
qed

lemma map_exn_total:
  "(\<And>x. x \<in> set xs \<Longrightarrow> f x = Inr (g x)) \<Longrightarrow> map_exn f xs = Inr (map g xs)"
  by (induction xs) simp_all

lemma map_exn_Inr_all:
  "map_exn f xs = Inr ys \<Longrightarrow> x \<in> set xs \<Longrightarrow> \<exists>y. f x = Inr y"
proof (induction xs arbitrary: ys)
  case Nil
  then show ?case by simp
next
  case (Cons a xs)
  from Cons.prems(1) obtain y zs where a: "f a = Inr y" and r: "map_exn f xs = Inr zs"
    by (auto simp: andThen_eq_Inr)
  show ?case
  proof (cases "x = a")
    case True
    with a show ?thesis by blast
  next
    case False
    with Cons.prems(2) have "x \<in> set xs" by simp
    with Cons.IH [OF r] show ?thesis .
  qed
qed

lemma unwrap_entry_not_null: "m \<noteq> JNull \<Longrightarrow> unwrap_entry m \<noteq> JNull"
  by (auto simp: unwrap_entry_def split: option.splits json.splits)

lemma coalesce_unwrap:
  "js_coalesce (own_prop m ''message'') (Some m) = Some (unwrap_entry m)"
  by (auto simp: js_coalesce_def nullish_def unwrap_entry_def split: option.splits json.splits)

lemma history_entry_eq:
  assumes "m \<noteq> JNull"
  shows "history_entry m =
           Inr (if exposes_turn (unwrap_entry m) then Some (turn_of (unwrap_entry m)) else None)"
  using assms unwrap_entry_not_null [OF assms]
  by (simp add: history_entry_def get_prop_Some coalesce_unwrap exposes_turn_def turn_of_def)

lemma history_entry_null [simp]: "history_entry JNull = Inl TypeError"
  by (simp add: history_entry_def)

lemma not_null_reconcile:
  "not_null (map (\<lambda>m. if exposes_turn (unwrap_entry m) then Some (turn_of (unwrap_entry m)) else None) ms)
     = reconciled_history ms"
  by (induction ms) (simp_all add: not_null_def reconciled_history_def)

lemma build_history_eq:
  assumes "JNull \<notin> set ms"
  shows "build_history (Some (JArr ms)) = Inr (reconciled_history ms)"
proof -
  have "map_exn history_entry ms =
          Inr (map (\<lambda>m. if exposes_turn (unwrap_entry m) then Some (turn_of (unwrap_entry m)) else None) ms)"
    using assms by (intro map_exn_total history_entry_eq) auto
  then show ?thesis by (simp add: build_history_def not_null_reconcile)
qed

lemma build_history_no_null:
  assumes "build_history (Some (JArr ms)) = Inr h"
  shows "JNull \<notin> set ms"
proof
  assume "JNull \<in> set ms"
  from assms obtain hs where "map_exn history_entry ms = Inr hs"
    by (auto simp: build_history_def andThen_eq_Inr)
  from map_exn_Inr_all [OF this \<open>JNull \<in> set ms\<close>] show False by simp
qed

lemma last_turn_eq:
  "last ms \<noteq> JNull \<Longrightarrow> js_or (own_prop (last ms) ''message'') (Some (last ms)) = Some (last_turn ms)"
  by (auto simp: js_or_def truthy_def last_turn_def split: option.splits)

lemma last_turn_not_null: "last ms \<noteq> JNull \<Longrightarrow> last_turn ms \<noteq> JNull"
  by (auto simp: last_turn_def split: option.splits)

lemma persistence_ids_eq:
  assumes "ms \<noteq> []" and "last ms \<noteq> JNull" and "length ms < 2 ^ 32"
  shows "persistence_ids (Some (JArr ms)) =
           Inr \<lparr>chat_id = js_or (own_prop (last_turn ms) ''chat_id'') (Some JNull),
                user_id = js_or (own_prop (last_turn ms) ''user_id'') (Some JNull),
                assistant_id = js_or (own_prop (last_turn ms) ''assistant_id'') (Some JNull),
                lastSeq = sequence_cursor ms\<rparr>"
  using assms(1,2) last_turn_not_null [OF assms(2)]
  by (simp add: persistence_ids_def get_prop_Some last_turn_eq sequence_cursor_def
        length_minus_one [OF assms(3)] del: js_add.simps split: option.splits json.splits)

lemma persistence_ids_defined:
  assumes "ms \<noteq> []" and "last ms \<noteq> JNull"
  shows "\<exists>ids. persistence_ids (Some (JArr ms)) = Inr ids"
  using assms last_turn_not_null [OF assms(2)]
  by (simp add: persistence_ids_def get_prop_Some last_turn_eq)

lemma persistence_ids_total:
  assumes "build_history messages = Inr h"
  shows "\<exists>ids. persistence_ids messages = Inr ids"
proof (cases messages)
  case None
  then show ?thesis by (simp add: persistence_ids_def)
next
  case (Some j)
  show ?thesis
  proof (cases j)
    case (JArr ms)
    show ?thesis
    proof (cases "ms = []")
      case True
      with Some JArr show ?thesis by (simp add: persistence_ids_def)
    next
      case False
      from assms Some JArr have "JNull \<notin> set ms" by (simp add: build_history_no_null)
      with False have "last ms \<noteq> JNull" by (metis last_in_set)
      from persistence_ids_defined [OF False this] Some JArr show ?thesis by simp
    qed
  qed (simp_all add: Some persistence_ids_def)
qed

lemma build_request_history:
  assumes "build_request e q cs ms df = Inr creq"
  obtains items sr h um where "search_items df = Inr items" "normalize items = Inr sr"
    "build_history ms = Inr h" "userMsg (number_text e) q = Inr um"
    "creq = \<lparr>req_model = AZURE_DEPLOYMENT e,
             req_temperature =
               js_coalesce (opt_prop cs ''temperature'') (Some (JNum (Finite 0))),
             req_max_tokens = 1200,
             req_messages = [systemMsg, toolMsg (number_text e) sr, um] @ h\<rparr>"
  using assms unfolding build_request_def not_null_Some
  by (auto simp: andThen_eq_Inr)

lemma userMsg_eq:
  "userMsg nt q = Inr um \<longleftrightarrow>
     (\<exists>qtext. js_to_string nt q = Inr qtext
        \<and> um = \<lparr>msg_role = Some (JStr ''user''), msg_name = None,
                  msg_content = Some (JStr
                    (''User asked: '' @ [CHR 0x22] @ qtext @ [CHR 0x22]
                     @ ''. Use the search results above to craft your reply.''))\<rparr>)"
  by (auto simp: userMsg_def andThen_eq_Inr)

lemma persist_fst:
  assumes "persistence_ids ms = Inr ids"
  shows "fst (persist e q cs ms resp) = Inr (assistant_content resp)"
  using assms by (simp add: persist_def Let_def)

lemma completion_calls_append [simp]:
  "completion_calls (xs @ ys) = completion_calls xs @ completion_calls ys"
  by (induction xs rule: completion_calls.induct) simp_all

lemma inserted_rows_append [simp]:
  "inserted_rows (xs @ ys) = inserted_rows xs @ inserted_rows ys"
  by (induction xs rule: inserted_rows.induct) simp_all

lemma completion_calls_mem: "CompletionCall c \<in> set evs \<longleftrightarrow> c \<in> set (completion_calls evs)"
  by (induction evs rule: completion_calls.induct) auto

lemma inserted_rows_mem: "InsertCall r \<in> set evs \<longleftrightarrow> r \<in> set (inserted_rows evs)"
  by (induction evs rule: inserted_rows.induct) auto

lemma persist_no_completion [simp]: "completion_calls (snd (persist e q cs ms resp)) = []"
  by (simp add: persist_def insert_and_log_def Let_def split: sum.splits)

lemma persist_no_completion':
  "persist e q cs ms resp = (r, evs) \<Longrightarrow> completion_calls evs = []"
  using persist_no_completion [of e q cs ms resp] by simp

lemma try_block_completion_calls:
  "completion_calls (snd (try_block e q cs ms)) =
     (case fetchSearchResults e q of Inl x \<Rightarrow> []
      | Inr df \<Rightarrow> (case build_request e q cs ms df of Inl x \<Rightarrow> [] | Inr creq \<Rightarrow> [creq]))"
  by (auto simp: try_block_def persist_no_completion' split: sum.splits prod.splits)

lemma POST_completion_calls:
  "completion_calls (snd (POST e)) =
     (if checkConnection e
      then (case request_json e of Inl x \<Rightarrow> []
            | Inr b \<Rightarrow> (case destructure b of Inl x \<Rightarrow> []
                | Inr (q, cs, ms) \<Rightarrow>
                    if truthy q then completion_calls (snd (try_block e q cs ms)) else []))
      else [])"
  by (simp add: POST_def split: sum.splits prod.splits)

lemma POST_reaches_completion:
  assumes "CompletionCall creq \<in> set (snd (POST e))"
  obtains b q cs ms df where "checkConnection e" "request_json e = Inr b"
    "destructure b = Inr (q, cs, ms)" "truthy q" "fetchSearchResults e q = Inr df"
    "build_request e q cs ms df = Inr creq"
proof -
  from assms have mem: "creq \<in> set (completion_calls (snd (POST e)))"
    by (simp add: completion_calls_mem)
  have cc: "checkConnection e"
    using mem by (cases "checkConnection e") (simp_all add: POST_completion_calls)
  obtain b where b: "request_json e = Inr b"
    using mem cc by (cases "request_json e") (auto simp: POST_completion_calls)
  obtain q cs ms where d: "destructure b = Inr (q, cs, ms)"
    using mem cc b by (cases "destructure b") (auto simp: POST_completion_calls)
  have tq: "truthy q"
    using mem cc b d by (cases "truthy q") (simp_all add: POST_completion_calls)
  with mem cc b d have tb: "creq \<in> set (completion_calls (snd (try_block e q cs ms)))"
    by (simp add: POST_completion_calls)
  obtain df where df: "fetchSearchResults e q = Inr df"
    using tb by (cases "fetchSearchResults e q") (auto simp: try_block_completion_calls)
  have "build_request e q cs ms df = Inr creq"
    using tb df by (cases "build_request e q cs ms df") (auto simp: try_block_completion_calls)
  with cc b d tq df show ?thesis by (rule that)
qed

lemma try_block_after_request:
  assumes "fetchSearchResults e q = Inr df" "build_request e q cs ms df = Inr creq"
  shows "try_block e q cs ms =
           (case create_completion e creq of
              Inl x \<Rightarrow> (Inl x, [SearchCall q, CompletionCall creq])
            | Inr resp \<Rightarrow>
                (Inr (assistant_content resp),
                 [SearchCall q, CompletionCall creq] @ snd (persist e q cs ms resp)))"
proof -
  from assms(2) obtain h where "build_history ms = Inr h"
    by (rule build_request_history)
  then obtain ids where "persistence_ids ms = Inr ids"
    using persistence_ids_total by blast
  then have "\<And>resp. fst (persist e q cs ms resp) = Inr (assistant_content resp)"
    by (rule persist_fst)
  then show ?thesis using assms
    by (simp add: try_block_def split_beta split: sum.splits)
qed

lemma POST_after_request:
  assumes "checkConnection e" "request_json e = Inr b" "destructure b = Inr (q, cs, ms)"
    "truthy q" "fetchSearchResults e q = Inr df" "build_request e q cs ms df = Inr creq"
  shows "POST e =
           (case create_completion e creq of
              Inl x \<Rightarrow>
                (Response 500 (ErrorBody (error_text e x)),
                 [ProbeCall, SearchCall q, CompletionCall creq,
                  ConsoleError ''web-search error:''])
            | Inr resp \<Rightarrow>
                (Response 200 (MessageBody (assistant_content resp)),
                 [ProbeCall, SearchCall q, CompletionCall creq]
                 @ snd (persist e q cs ms resp)))"
  using assms(1-4) try_block_after_request [OF assms(5,6)]
  by (simp add: POST_def split: sum.splits)

lemma persist_inserted_rows:
  assumes "persistence_ids ms = Inr ids"
  shows "inserted_rows (snd (persist e q cs ms resp)) =
           (if truthy (chat_id ids) \<and> truthy (user_id ids) \<and> truthy q
            then [user_row e ids q cs] else [])
           @ (if truthy (chat_id ids) \<and> truthy (user_id ids) \<and> assistant_content resp \<noteq> []
              then [assistant_row e ids (assistant_content resp) cs] else [])"
  using assms by (simp add: persist_def Let_def insert_and_log_def)

lemmas sample_eval =
  POST_def checkConnection_def sample_env_def ok_response_def sample_body_def destructure_def
  get_prop_def andThen_def truthy_def try_block_def fetchSearchResults_def sample_df_def
  build_request_def search_items_def items_field_def opt_prop_def opt_index0_def js_or_def
  normalize_def build_history_def history_entry_def sample_entry_def js_coalesce_def
  nullish_def not_null_def persist_def persistence_ids_def assistant_content_def
  sample_completion_def insert_and_log_def user_row_def assistant_row_def model_of_def
  normalize_item_def split_first_def sample_item_def error_text_def exn_message_def Let_def
  userMsg_def js_to_string_def toolMsg_def

lemma destructure_eq:
  assumes "destructure b = Inr (q, cs, ms)"
  shows "b \<noteq> JNull" "q = own_prop b ''query''" "cs = own_prop b ''chatSettings''"
    "ms = own_prop b ''messages''"
proof -
  show nn: "b \<noteq> JNull" using assms by (auto simp: destructure_def)
  from assms show "q = own_prop b ''query''" "cs = own_prop b ''chatSettings''"
    "ms = own_prop b ''messages''"
    by (simp_all add: destructure_def get_prop_Some [OF nn])
qed

lemma truthy_or_null [simp]: "truthy (js_or x (Some JNull)) = truthy x"
  by (simp add: js_or_def truthy_def)

lemma console_errors_append [simp]:
  "console_errors (xs @ ys) = console_errors xs @ console_errors ys"
  by (induction xs rule: console_errors.induct) simp_all

lemma number_text_update_insert [simp]:
  "number_text (e\<lparr>insert_messages := ins\<rparr>) = number_text e"
  by simp

lemma env_update_insert:
  "checkConnection (e\<lparr>insert_messages := ins\<rparr>) = checkConnection e"
  "fetchSearchResults (e\<lparr>insert_messages := ins\<rparr>) q = fetchSearchResults e q"
  "build_request (e\<lparr>insert_messages := ins\<rparr>) q cs ms df = build_request e q cs ms df"
  by (simp_all add: checkConnection_def fetchSearchResults_def build_request_def cong: if_cong)

lemma persist_console_errors:
  assumes "persistence_ids ms = Inr ids"
  shows "console_errors (snd (persist e q cs ms resp)) =
           map insert_error_label
             (filter (\<lambda>r. truthy (ins_error (insert_messages e r)))
                (inserted_rows (snd (persist e q cs ms resp))))"
  using assms
  by (simp add: persist_def Let_def insert_and_log_def insert_error_label_def
        user_row_def assistant_row_def)


lemma inserted_positions_persist:
  assumes "ms \<noteq> []" and "last ms \<noteq> JNull" and "length ms < 2 ^ 32" and "truthy q"
  shows "inserted_positions (snd (persist e q cs (Some (JArr ms)) resp)) =
           (if truthy (own_prop (last_turn ms) ''chat_id'')
               \<and> truthy (own_prop (last_turn ms) ''user_id'')
            then (''user'', js_add (sequence_cursor ms) (Finite 1))
                 # (if assistant_content resp \<noteq> []
                    then [(''assistant'', js_add (sequence_cursor ms) (Finite 2))] else [])
            else [])"
  using assms(4)
  by (simp add: inserted_positions_def
        persist_inserted_rows [OF persistence_ids_eq [OF assms(1,2,3)]]
        user_row_def assistant_row_def)

section \<open>The claims\<close>

subsection \<open>C1\<close>

text \<open>
  C1, as the code has it: for a request whose history is a non-empty array and whose
  completion call returned, the cursor is the \<open>sequence_number\<close> of the last entry (of
  its \<open>message\<close> field when that is truthy) when it is a number, and otherwise the index
  of the last entry, the history's length minus one.  When that entry carries a truthy
  \<open>chat_id\<close> and \<open>user_id\<close>, the user row is inserted at cursor + 1 and then, when the
  completion text is not empty, the assistant row at cursor + 2; otherwise no row is
  inserted.  The two sums are sums of doubles: they are the exact cursor + 1 and
  cursor + 2 when the cursor is an integer of magnitude at most \<open>2 ^ 53 - 2\<close>, and
  rounded beyond.  (A JavaScript array has fewer than \<open>2 ^ 32\<close> elements.)
\<close>

theorem rows_follow_cursor:
  assumes "request_json e = Inr b" and "own_prop b ''messages'' = Some (JArr ms)"
    and "ms \<noteq> []" and "length ms < 2 ^ 32"
    and "CompletionCall creq \<in> set (snd (POST e))" and "create_completion e creq = Inr resp"
  shows "inserted_positions (snd (POST e)) =
           (if truthy (own_prop (last_turn ms) ''chat_id'')
               \<and> truthy (own_prop (last_turn ms) ''user_id'')
            then (''user'', js_add (sequence_cursor ms) (Finite 1))
                 # (if assistant_content resp \<noteq> []
                    then [(''assistant'', js_add (sequence_cursor ms) (Finite 2))] else [])
            else [])
         \<and> (\<forall>c. sequence_cursor ms = Finite (of_int c) \<and> \<bar>c\<bar> \<le> 2 ^ 53 - 2 \<longrightarrow>
                js_add (sequence_cursor ms) (Finite 1) = Finite (of_int (c + 1))
                \<and> js_add (sequence_cursor ms) (Finite 2) = Finite (of_int (c + 2)))"
proof -
  from assms(5) obtain b' q cs ms' df where run: "checkConnection e" "request_json e = Inr b'"
    "destructure b' = Inr (q, cs, ms')" "truthy q" "fetchSearchResults e q = Inr df"
    "build_request e q cs ms' df = Inr creq"
    by (rule POST_reaches_completion)
  from run(2) assms(1) have "b' = b" by simp
  with destructure_eq(4) [OF run(3)] assms(2) have ms': "ms' = Some (JArr ms)" by simp
  from run(6) obtain h where "build_history ms' = Inr h"
    by (rule build_request_history)
  with ms' have "JNull \<notin> set ms" by (simp add: build_history_no_null)
  with assms(3) have last: "last ms \<noteq> JNull" by (metis last_in_set)
  from POST_after_request [OF run] assms(6)
  have "inserted_positions (snd (POST e))
          = inserted_positions (snd (persist e q cs ms' resp))"
    by (simp add: inserted_positions_def)
  with ms' inserted_positions_persist [OF assms(3) last assms(4) run(4)]
  have rows: "inserted_positions (snd (POST e)) =
           (if truthy (own_prop (last_turn ms) ''chat_id'')
               \<and> truthy (own_prop (last_turn ms) ''user_id'')
            then (''user'', js_add (sequence_cursor ms) (Finite 1))
                 # (if assistant_content resp \<noteq> []
                    then [(''assistant'', js_add (sequence_cursor ms) (Finite 2))] else [])
            else [])"
    by simp
  have exact: "js_add (Finite (of_int c)) (Finite 1) = Finite (of_int (c + 1))
      \<and> js_add (Finite (of_int c)) (Finite 2) = Finite (of_int (c + 2))"
    if "\<bar>c\<bar> \<le> 2 ^ 53 - 2" for c :: int
  proof -
    from that have "\<bar>c + 1\<bar> \<le> 2 ^ 53" "\<bar>c + 2\<bar> \<le> 2 ^ 53" by simp_all
    from js_add_int [OF this(1)] js_add_int [OF this(2)] show ?thesis by simp
  qed
  from rows exact show ?thesis by (simp del: js_add.simps)
qed

theorem rows_follow_cursor_witness:
  "request_json (sample_env [flat_entry, sample_entry] [])
     = Inr (sample_body [flat_entry, sample_entry])
   \<and> own_prop (sample_body [flat_entry, sample_entry]) ''messages''
       = Some (JArr [flat_entry, sample_entry])
   \<and> CompletionCall (sample_request_with [turn_of flat_entry, sample_turn])
        \<in> set (snd (POST (sample_env [flat_entry, sample_entry] [])))
   \<and> sequence_cursor [flat_entry, sample_entry] = Finite 4
   \<and> inserted_positions (snd (POST (sample_env [flat_entry, sample_entry] [])))
       = [(''user'', Finite 5), (''assistant'', Finite 6)]
   \<and> sequence_cursor [sample_entry, unnumbered_entry] = Finite 1
   \<and> inserted_positions (snd (POST (sample_env [sample_entry, unnumbered_entry] [])))
       = [(''user'', Finite 2), (''assistant'', Finite 3)]
   \<and> sequence_cursor [fraction_entry] = Finite (3 / 2)
   \<and> inserted_positions (snd (POST (sample_env [fraction_entry] [])))
       = [(''user'', Finite (5 / 2)), (''assistant'', Finite (7 / 2))]
   \<and> sequence_cursor [large_entry] = Finite 9007199254740992
   \<and> inserted_positions (snd (POST (sample_env [large_entry] [])))
       = [(''user'', Finite 9007199254740992), (''assistant'', Finite 9007199254740994)]"
proof -
  let ?h1 = "[flat_entry, sample_entry]" and ?h2 = "[sample_entry, unnumbered_entry]"
  let ?h3 = "[fraction_entry]" and ?h4 = "[large_entry]"
  let ?r1 = "sample_request_with [turn_of flat_entry, sample_turn]"
  let ?r2 = "sample_request_with [sample_turn, sample_turn]"
  let ?r3 = "sample_request_with [sample_turn]"
  have rj: "request_json (sample_env ?h1 []) = Inr (sample_body ?h1)"
    "request_json (sample_env ?h2 []) = Inr (sample_body ?h2)"
    "request_json (sample_env ?h3 []) = Inr (sample_body ?h3)"
    "request_json (sample_env ?h4 []) = Inr (sample_body ?h4)"
    by (simp_all add: sample_env_def)
  have ms: "own_prop (sample_body ?h1) ''messages'' = Some (JArr ?h1)"
    "own_prop (sample_body ?h2) ''messages'' = Some (JArr ?h2)"
    "own_prop (sample_body ?h3) ''messages'' = Some (JArr ?h3)"
    "own_prop (sample_body ?h4) ''messages'' = Some (JArr ?h4)"
    by (simp_all add: sample_body_def)
  have ne: "?h1 \<noteq> []" "?h2 \<noteq> []" "?h3 \<noteq> []" "?h4 \<noteq> []" by simp_all
  have len: "length ?h1 < 2 ^ 32" "length ?h2 < 2 ^ 32" "length ?h3 < 2 ^ 32"
    "length ?h4 < 2 ^ 32" by simp_all
  have cc: "CompletionCall ?r1 \<in> set (snd (POST (sample_env ?h1 [])))"
    "CompletionCall ?r2 \<in> set (snd (POST (sample_env ?h2 [])))"
    "CompletionCall ?r3 \<in> set (snd (POST (sample_env ?h3 [])))"
    "CompletionCall ?r3 \<in> set (snd (POST (sample_env ?h4 [])))"
    by (simp_all add: sample_eval sample_request_with_def sample_turn_def flat_entry_def
          unnumbered_entry_def fraction_entry_def large_entry_def turn_of_def
          sample_user_message_def del: js_add.simps)
  have rt: "create_completion (sample_env ?h1 []) ?r1 = Inr sample_completion"
    "create_completion (sample_env ?h2 []) ?r2 = Inr sample_completion"
    "create_completion (sample_env ?h3 []) ?r3 = Inr sample_completion"
    "create_completion (sample_env ?h4 []) ?r3 = Inr sample_completion"
    by (simp_all add: sample_env_def)
  have cur: "sequence_cursor ?h1 = Finite 4" "sequence_cursor ?h2 = Finite 1"
    "sequence_cursor ?h3 = Finite (3 / 2)" "sequence_cursor ?h4 = Finite 9007199254740992"
    by (simp_all add: sequence_cursor_def last_turn_def sample_entry_def unnumbered_entry_def
          fraction_entry_def large_entry_def)
  have ids: "truthy (own_prop (last_turn ?h1) ''chat_id'')"
    "truthy (own_prop (last_turn ?h1) ''user_id'')"
    "truthy (own_prop (last_turn ?h2) ''chat_id'')"
    "truthy (own_prop (last_turn ?h2) ''user_id'')"
    "truthy (own_prop (last_turn ?h3) ''chat_id'')"
    "truthy (own_prop (last_turn ?h3) ''user_id'')"
    "truthy (own_prop (last_turn ?h4) ''chat_id'')"
    "truthy (own_prop (last_turn ?h4) ''user_id'')"
    by (simp_all add: last_turn_def sample_entry_def unnumbered_entry_def fraction_entry_def
          large_entry_def truthy_def)
  have ac: "assistant_content sample_completion \<noteq> []"
    by (simp add: assistant_content_def sample_completion_def)
  have small: "js_add (Finite 4) (Finite 1) = Finite 5" "js_add (Finite 4) (Finite 2) = Finite 6"
    "js_add (Finite 1) (Finite 1) = Finite 2" "js_add (Finite 1) (Finite 2) = Finite 3"
    by simp_all
  have halves: "quotient_of (5 / 2) = (5, 2)" "quotient_of (7 / 2) = (7, 2)"
    by code_simp+
  have fraction: "js_add (Finite (3 / 2)) (Finite 1) = Finite (5 / 2)"
    "js_add (Finite (3 / 2)) (Finite 2) = Finite (7 / 2)"
    by (simp_all add: round_eval halves)
  have large: "js_add (Finite 9007199254740992) (Finite 1) = Finite 9007199254740992"
    "js_add (Finite 9007199254740992) (Finite 2) = Finite 9007199254740994"
    by (simp_all add: round_eval)
  note sums = small fraction large
  show ?thesis
    using rj(1) ms(1) cc(1) cur
      rows_follow_cursor [OF rj(1) ms(1) ne(1) len(1) cc(1) rt(1)]
      rows_follow_cursor [OF rj(2) ms(2) ne(2) len(2) cc(2) rt(2)]
      rows_follow_cursor [OF rj(3) ms(3) ne(3) len(3) cc(3) rt(3)]
      rows_follow_cursor [OF rj(4) ms(4) ne(4) len(4) cc(4) rt(4)]
    by (simp add: ids ac sums del: js_add.simps)
qed

text \<open>
  C1 as stated fails: without a numeric \<open>sequence_number\<close> the cursor falls back to the
  index of the last entry, not to the history's length.  With a history of one such
  entry the rows are inserted at 1 and 2, where the stated fallback would give 2 and 3.
\<close>

theorem cursor_fallback_counterexample:
  "own_prop (last_turn [unnumbered_entry]) ''sequence_number'' = None
   \<and> cursor_falling_back_to_length [unnumbered_entry] = Finite 1
   \<and> inserted_positions (snd (POST (sample_env [unnumbered_entry] [])))
       = [(''user'', Finite 1), (''assistant'', Finite 2)]
   \<and> inserted_positions (snd (POST (sample_env [unnumbered_entry] [])))
       \<noteq> [(''user'', js_add (cursor_falling_back_to_length [unnumbered_entry]) (Finite 1)),
           (''assistant'', js_add (cursor_falling_back_to_length [unnumbered_entry]) (Finite 2))]"
  by (simp add: sample_eval inserted_positions_def cursor_falling_back_to_length_def
        last_turn_def unnumbered_entry_def)

subsection \<open>C2\<close>

text \<open>
  C2, as the code has it: the probe comes first.  When the probe succeeded and the parsed
  body (not \<open>null\<close>) has an absent, empty or otherwise falsy \<open>query\<close>, the handler
  answers 400 with the missing-query error; the probe is the only external call it made:
  no search query, no completion call, no insert.
\<close>

theorem missing_query_answers_400:
  assumes "checkConnection e" and "request_json e = Inr b" and "b \<noteq> JNull"
    and "\<not> truthy (own_prop b ''query'')"
  shows "POST e = (Response 400 (ErrorBody missing_query_message), [ProbeCall])"
  using assms by (simp add: POST_def destructure_def get_prop_Some)

theorem missing_query_answers_400_witness:
  "checkConnection no_query_env \<and> request_json no_query_env = Inr (JObj [])
   \<and> own_prop (JObj []) ''query'' = None
   \<and> POST no_query_env = (Response 400 (ErrorBody missing_query_message), [ProbeCall])
   \<and> checkConnection empty_query_env
   \<and> request_json empty_query_env = Inr (JObj [(''query'', JStr [])])
   \<and> own_prop (JObj [(''query'', JStr [])]) ''query'' = Some (JStr [])
   \<and> POST empty_query_env = (Response 400 (ErrorBody missing_query_message), [ProbeCall])"
proof -
  have a: "checkConnection no_query_env" "checkConnection empty_query_env"
    by (simp_all add: no_query_env_def empty_query_env_def sample_env_def
          checkConnection_def ok_response_def)
  have b: "request_json no_query_env = Inr (JObj [])"
    "request_json empty_query_env = Inr (JObj [(''query'', JStr [])])"
    by (simp_all add: no_query_env_def empty_query_env_def)
  have c: "\<not> truthy (own_prop (JObj []) ''query'')"
    "\<not> truthy (own_prop (JObj [(''query'', JStr [])]) ''query'')"
    by (simp_all add: truthy_def)
  show ?thesis
    using a b missing_query_answers_400 [OF a(1) b(1) _ c(1)]
      missing_query_answers_400 [OF a(2) b(2) _ c(2)]
    by simp
qed

text \<open>
  C2 as stated fails: a body without \<open>query\<close> is answered with 503, not 400, when the
  probe fails, and the probe itself is a call to the search provider.
\<close>

theorem missing_query_counterexample:
  "request_json no_query_unreachable_env = Inr (JObj [])
   \<and> own_prop (JObj []) ''query'' = None
   \<and> POST no_query_unreachable_env
       = (Response 503 (ErrorBody offline_message), [ProbeCall])
   \<and> fst (POST no_query_unreachable_env) \<noteq> Response 400 (ErrorBody missing_query_message)"
  by (simp add: no_query_unreachable_env_def no_query_env_def POST_def checkConnection_def)

subsection \<open>C3\<close>

text \<open>
  C3: when the connectivity probe fails, by a network error or by a status that is not a
  success, the handler answers 503 with the offline message and issues neither a search
  query nor a completion call.
\<close>

theorem probe_failure_answers_503:
  assumes "(\<exists>x. fetch_status e = Inl x) \<or> (\<exists>res. fetch_status e = Inr res \<and> \<not> res_ok res)"
  shows "fst (POST e) = Response 503 (ErrorBody offline_message)
         \<and> search_calls (snd (POST e)) = [] \<and> completion_calls (snd (POST e)) = []
         \<and> inserted_rows (snd (POST e)) = []"
proof -
  from assms have "\<not> checkConnection e"
    by (auto simp: checkConnection_def)
  then have "POST e = (Response 503 (ErrorBody offline_message), [ProbeCall])"
    by (simp add: POST_def)
  then show ?thesis by simp
qed

theorem probe_failure_answers_503_witness:
  "fetch_status unreachable_env = Inl (Thrown ''fetch failed'')
   \<and> fst (POST unreachable_env) = Response 503 (ErrorBody offline_message)
   \<and> search_calls (snd (POST unreachable_env)) = []
   \<and> completion_calls (snd (POST unreachable_env)) = []
   \<and> (\<exists>res. fetch_status refused_env = Inr res \<and> \<not> res_ok res)
   \<and> fst (POST refused_env) = Response 503 (ErrorBody offline_message)
   \<and> search_calls (snd (POST refused_env)) = []
   \<and> completion_calls (snd (POST refused_env)) = []"
proof -
  have a: "fetch_status unreachable_env = Inl (Thrown ''fetch failed'')"
    by (simp add: unreachable_env_def)
  have b: "\<exists>res. fetch_status refused_env = Inr res \<and> \<not> res_ok res"
    by (simp add: refused_env_def)
  from a have a': "(\<exists>x. fetch_status unreachable_env = Inl x)
      \<or> (\<exists>res. fetch_status unreachable_env = Inr res \<and> \<not> res_ok res)" by blast
  from b have b': "(\<exists>x. fetch_status refused_env = Inl x)
      \<or> (\<exists>res. fetch_status refused_env = Inr res \<and> \<not> res_ok res)" by blast
  show ?thesis
    using a b probe_failure_answers_503 [OF a'] probe_failure_answers_503 [OF b'] by simp
qed

subsection \<open>C4\<close>

text \<open>
  C4: a completion call is reached only after the body was parsed, the search answered,
  its items were normalized, the history was built and the query was converted to a
  string.  The messages it is given are, in this order: the system message with the fixed
  instruction; the assistant message named \<open>web_search_tool\<close> whose content is the
  normalized search results serialized with two spaces of indentation; the user message
  that quotes the query; and then the filtered history, whatever the history holds.
\<close>

theorem completion_messages_order:
  assumes "CompletionCall creq \<in> set (snd (POST e))"
  shows "\<exists>b q cs ms df items sr h qtext.
           request_json e = Inr b \<and> destructure b = Inr (q, cs, ms)
           \<and> fetchSearchResults e q = Inr df \<and> search_items df = Inr items
           \<and> normalize items = Inr sr \<and> build_history ms = Inr h
           \<and> js_to_string (number_text e) q = Inr qtext
           \<and> req_messages creq =
               [\<lparr>msg_role = Some (JStr ''system''), msg_name = None,
                 msg_content = Some (JStr
                   (''You are ChatGPT, a helpful assistant. You have access to up-to-date web ''
                      @ ''search results below. Use them to answer the user'' @ [CHR 0x27]
                      @ ''s question fully'' @ [CHR 0xE2, CHR 0x80, CHR 0x94]
                      @ ''choose whatever structure best fits the topic. ''
                      @ ''Cite sources by number when relevant.''))\<rparr>,
                \<lparr>msg_role = Some (JStr ''assistant''), msg_name = Some ''web_search_tool'',
                 msg_content = Some (JStr (stringify (number_text e) (JArr (map search_result_json sr)) 0))\<rparr>,
                \<lparr>msg_role = Some (JStr ''user''), msg_name = None,
                 msg_content = Some (JStr
                   (''User asked: '' @ [CHR 0x22] @ qtext @ [CHR 0x22]
                    @ ''. Use the search results above to craft your reply.''))\<rparr>]
               @ h"
proof -
  from assms obtain b q cs ms df where
    b: "request_json e = Inr b" "destructure b = Inr (q, cs, ms)"
    and df: "fetchSearchResults e q = Inr df"
    and rq: "build_request e q cs ms df = Inr creq"
    by (rule POST_reaches_completion)
  from rq obtain items sr h um where st: "search_items df = Inr items"
    "normalize items = Inr sr" "build_history ms = Inr h"
    and um: "userMsg (number_text e) q = Inr um"
    and msgs: "req_messages creq = [systemMsg, toolMsg (number_text e) sr, um] @ h"
    by (rule build_request_history) simp
  from um obtain qtext where qtext: "js_to_string (number_text e) q = Inr qtext"
    and "um = \<lparr>msg_role = Some (JStr ''user''), msg_name = None,
               msg_content = Some (JStr
                 (''User asked: '' @ [CHR 0x22] @ qtext @ [CHR 0x22]
                  @ ''. Use the search results above to craft your reply.''))\<rparr>"
    by (auto simp: userMsg_eq)
  with msgs have "req_messages creq =
               [\<lparr>msg_role = Some (JStr ''system''), msg_name = None,
                 msg_content = Some (JStr
                   (''You are ChatGPT, a helpful assistant. You have access to up-to-date web ''
                      @ ''search results below. Use them to answer the user'' @ [CHR 0x27]
                      @ ''s question fully'' @ [CHR 0xE2, CHR 0x80, CHR 0x94]
                      @ ''choose whatever structure best fits the topic. ''
                      @ ''Cite sources by number when relevant.''))\<rparr>,
                \<lparr>msg_role = Some (JStr ''assistant''), msg_name = Some ''web_search_tool'',
                 msg_content = Some (JStr (stringify (number_text e) (JArr (map search_result_json sr)) 0))\<rparr>,
                \<lparr>msg_role = Some (JStr ''user''), msg_name = None,
                 msg_content = Some (JStr
                   (''User asked: '' @ [CHR 0x22] @ qtext @ [CHR 0x22]
                    @ ''. Use the search results above to craft your reply.''))\<rparr>]
               @ h"
    by (simp add: systemMsg_def toolMsg_def)
  with b df st qtext show ?thesis by blast
qed

theorem completion_messages_order_witness:
  "completion_calls (snd (POST (sample_env [sample_entry] [sample_item])))
     = [\<lparr>req_model = ''gpt-4-turbo'', req_temperature = Some (JNum (Finite 0)),
         req_max_tokens = 1200,
         req_messages =
           [\<lparr>msg_role = Some (JStr ''system''), msg_name = None,
             msg_content = Some (JStr
               (''You are ChatGPT, a helpful assistant. You have access to up-to-date web ''
                  @ ''search results below. Use them to answer the user'' @ [CHR 0x27]
                  @ ''s question fully'' @ [CHR 0xE2, CHR 0x80, CHR 0x94]
                  @ ''choose whatever structure best fits the topic. ''
                  @ ''Cite sources by number when relevant.''))\<rparr>,
            \<lparr>msg_role = Some (JStr ''assistant''), msg_name = Some ''web_search_tool'',
             msg_content = Some (JStr sample_tool_text)\<rparr>,
            \<lparr>msg_role = Some (JStr ''user''), msg_name = None,
             msg_content = Some (JStr
               (''User asked: '' @ [CHR 0x22] @ ''weather in Paris'' @ [CHR 0x22]
                @ ''. Use the search results above to craft your reply.''))\<rparr>]
           @ [\<lparr>msg_role = Some (JStr ''user''), msg_name = None,
                msg_content = Some (JStr ''hi'')\<rparr>]\<rparr>]
   \<and> (\<exists>creq b q cs ms df items sr h qtext.
         CompletionCall creq \<in> set (snd (POST (sample_env [sample_entry] [sample_item])))
         \<and> request_json (sample_env [sample_entry] [sample_item]) = Inr b
         \<and> destructure b = Inr (q, cs, ms)
         \<and> fetchSearchResults (sample_env [sample_entry] [sample_item]) q = Inr df
         \<and> search_items df = Inr items
         \<and> normalize items = Inr sr \<and> build_history ms = Inr h
         \<and> js_to_string (number_text (sample_env [sample_entry] [sample_item])) q = Inr qtext
         \<and> req_messages creq =
               [\<lparr>msg_role = Some (JStr ''system''), msg_name = None,
                 msg_content = Some (JStr
                   (''You are ChatGPT, a helpful assistant. You have access to up-to-date web ''
                      @ ''search results below. Use them to answer the user'' @ [CHR 0x27]
                      @ ''s question fully'' @ [CHR 0xE2, CHR 0x80, CHR 0x94]
                      @ ''choose whatever structure best fits the topic. ''
                      @ ''Cite sources by number when relevant.''))\<rparr>,
                \<lparr>msg_role = Some (JStr ''assistant''), msg_name = Some ''web_search_tool'',
                 msg_content = Some (JStr (stringify (number_text (sample_env [sample_entry] [sample_item]))
                                            (JArr (map search_result_json sr)) 0))\<rparr>,
                \<lparr>msg_role = Some (JStr ''user''), msg_name = None,
                 msg_content = Some (JStr
                   (''User asked: '' @ [CHR 0x22] @ qtext @ [CHR 0x22]
                    @ ''. Use the search results above to craft your reply.''))\<rparr>]
               @ h)"
proof -
  let ?e = "sample_env [sample_entry] [sample_item]"
  have calls: "completion_calls (snd (POST ?e))
     = [\<lparr>req_model = ''gpt-4-turbo'', req_temperature = Some (JNum (Finite 0)),
         req_max_tokens = 1200,
         req_messages =
           [\<lparr>msg_role = Some (JStr ''system''), msg_name = None,
             msg_content = Some (JStr
               (''You are ChatGPT, a helpful assistant. You have access to up-to-date web ''
                  @ ''search results below. Use them to answer the user'' @ [CHR 0x27]
                  @ ''s question fully'' @ [CHR 0xE2, CHR 0x80, CHR 0x94]
                  @ ''choose whatever structure best fits the topic. ''
                  @ ''Cite sources by number when relevant.''))\<rparr>,
            \<lparr>msg_role = Some (JStr ''assistant''), msg_name = Some ''web_search_tool'',
             msg_content = Some (JStr sample_tool_text)\<rparr>,
            \<lparr>msg_role = Some (JStr ''user''), msg_name = None,
             msg_content = Some (JStr
               (''User asked: '' @ [CHR 0x22] @ ''weather in Paris'' @ [CHR 0x22]
                @ ''. Use the search results above to craft your reply.''))\<rparr>]
           @ [\<lparr>msg_role = Some (JStr ''user''), msg_name = None,
                msg_content = Some (JStr ''hi'')\<rparr>]\<rparr>]"
    by (simp add: sample_eval systemMsg_def search_result_json_def field_def quote_def
          quote_char_def indent_def sample_tool_text_def eval_nat_numeral)
  then obtain creq where a: "CompletionCall creq \<in> set (snd (POST ?e))"
    by (simp add: completion_calls_mem)
  from completion_messages_order [OF a] a calls show ?thesis by blast
qed

subsection \<open>C5\<close>

text \<open>
  C5, as the code has it: for a history array without a \<open>null\<close> entry, every entry is
  unwrapped one level (its \<open>message\<close> field when that is neither \<open>null\<close> nor absent,
  otherwise the entry itself); exactly the unwrapped entries whose \<open>role\<close> and \<open>content\<close>
  are both truthy are kept, as \<open>{role, content}\<close>, in their order, and the others are
  dropped without an error.
\<close>

theorem history_reconciliation:
  assumes "JNull \<notin> set ms"
  shows "build_history (Some (JArr ms))
           = Inr (map turn_of (filter exposes_turn (map unwrap_entry ms)))"
  using build_history_eq [OF assms] by (simp add: reconciled_history_def)

theorem history_reconciliation_witness:
  "JNull \<notin> set mixed_history
   \<and> build_history (Some (JArr mixed_history))
       = Inr [sample_turn,
              \<lparr>msg_role = Some (JStr ''assistant''), msg_name = None,
               msg_content = Some (JStr ''yo'')\<rparr>]"
proof -
  have a: "JNull \<notin> set mixed_history"
    by (simp add: mixed_history_def sample_entry_def empty_content_entry_def flat_entry_def)
  show ?thesis
    using a history_reconciliation [OF a]
    by (simp add: mixed_history_def sample_entry_def empty_content_entry_def flat_entry_def
          unwrap_entry_def exposes_turn_def turn_of_def truthy_def sample_turn_def)
qed

text \<open>
  C5 as stated fails: a \<open>null\<close> entry is not dropped, it raises; the request is answered
  with 500 and the completion provider is never called.
\<close>

theorem history_reconciliation_counterexample:
  "build_history (Some (JArr [sample_entry, JNull])) = Inl TypeError
   \<and> fst (POST (sample_env [sample_entry, JNull] []))
       = Response 500 (ErrorBody ''Cannot read properties of null'')
   \<and> completion_calls (snd (POST (sample_env [sample_entry, JNull] []))) = []"
  by (simp add: sample_eval)

subsection \<open>C6\<close>




subsection \<open>C7\<close>

text \<open>
  C7: when the completion call raises, the handler answers 500 with the error's message
  (or with \<open>Unexpected server error\<close> when the message is empty), and no row, of the
  assistant or of the user, is inserted.
\<close>

theorem completion_failure_answers_500:
  assumes "CompletionCall creq \<in> set (snd (POST e))" and "create_completion e creq = Inl x"
  shows "fst (POST e)
           = Response 500 (ErrorBody
               (case x of
                  Thrown m \<Rightarrow> if m \<noteq> [] then m else ''Unexpected server error''
                | TypeError \<Rightarrow> if type_error_text e \<noteq> [] then type_error_text e
                               else ''Unexpected server error''))
         \<and> inserted_rows (snd (POST e)) = []"
proof -
  from assms(1) obtain b q cs ms df where "checkConnection e" "request_json e = Inr b"
    "destructure b = Inr (q, cs, ms)" "truthy q" "fetchSearchResults e q = Inr df"
    "build_request e q cs ms df = Inr creq"
    by (rule POST_reaches_completion)
  from POST_after_request [OF this] assms(2)
  have "POST e = (Response 500 (ErrorBody (error_text e x)),
                  [ProbeCall, SearchCall q, CompletionCall creq,
                   ConsoleError ''web-search error:''])"
    by simp
  then show ?thesis
    by (cases x) (simp_all add: error_text_def exn_message_def)
qed

theorem completion_failure_answers_500_witness:
  "CompletionCall (sample_request [sample_result]) \<in> set (snd (POST failing_completion_env))
   \<and> create_completion failing_completion_env (sample_request [sample_result])
       = Inl (Thrown ''429 Rate limit reached'')
   \<and> fst (POST failing_completion_env) = Response 500 (ErrorBody ''429 Rate limit reached'')
   \<and> inserted_rows (snd (POST failing_completion_env)) = []"
proof -
  have a: "CompletionCall (sample_request [sample_result])
             \<in> set (snd (POST failing_completion_env))"
    by (simp add: failing_completion_env_def sample_eval sample_request_def sample_result_def
          sample_turn_def sample_user_message_def)
  have b: "create_completion failing_completion_env (sample_request [sample_result])
             = Inl (Thrown ''429 Rate limit reached'')"
    by (simp add: failing_completion_env_def)
  show ?thesis
    using a b completion_failure_answers_500 [OF a b] by simp
qed

subsection \<open>C8\<close>

text \<open>
  C8: once the completion call returned, the outcome of the inserts has no part in the
  response: whatever the database answers to each row, the handler returns 200 with the
  completion text.  A failed insert prints its error line and nothing else is done
  about it.
\<close>

theorem insert_failure_is_silent:
  assumes "CompletionCall creq \<in> set (snd (POST e))" and "create_completion e creq = Inr resp"
  shows "fst (POST (e\<lparr>insert_messages := ins\<rparr>))
           = Response 200 (MessageBody (assistant_content resp))
         \<and> console_errors (snd (POST e))
             = map insert_error_label
                 (filter (\<lambda>r. truthy (ins_error (insert_messages e r)))
                    (inserted_rows (snd (POST e))))"
proof -
  from assms(1) obtain b q cs ms df where run: "checkConnection e" "request_json e = Inr b"
    "destructure b = Inr (q, cs, ms)" "truthy q" "fetchSearchResults e q = Inr df"
    "build_request e q cs ms df = Inr creq"
    by (rule POST_reaches_completion)
  let ?e = "e\<lparr>insert_messages := ins\<rparr>"
  have "checkConnection ?e" "request_json ?e = Inr b" "destructure b = Inr (q, cs, ms)"
    "truthy q" "fetchSearchResults ?e q = Inr df" "build_request ?e q cs ms df = Inr creq"
    using run by (simp_all add: env_update_insert)
  from POST_after_request [OF this] assms(2)
  have first: "fst (POST ?e) = Response 200 (MessageBody (assistant_content resp))"
    by simp
  from run(6) obtain h where "build_history ms = Inr h"
    by (rule build_request_history)
  then obtain ids where "persistence_ids ms = Inr ids"
    using persistence_ids_total by blast
  from persist_console_errors [OF this] POST_after_request [OF run] assms(2)
  have "console_errors (snd (POST e))
          = map insert_error_label
              (filter (\<lambda>r. truthy (ins_error (insert_messages e r)))
                 (inserted_rows (snd (POST e))))"
    by simp
  with first show ?thesis by simp
qed

theorem insert_failure_is_silent_witness:
  "CompletionCall (sample_request [sample_result]) \<in> set (snd (POST failing_insert_env))
   \<and> create_completion failing_insert_env (sample_request [sample_result])
       = Inr sample_completion
   \<and> fst (POST failing_insert_env) = Response 200 (MessageBody ''Sunny'')
   \<and> fst (POST (sample_env [sample_entry] [sample_item])) = Response 200 (MessageBody ''Sunny'')
   \<and> console_errors (snd (POST failing_insert_env))
       = [''[WebSearch API] User message insert error:'',
          ''[WebSearch API] Assistant message insert error:'']"
proof -
  have a: "CompletionCall (sample_request [sample_result])
             \<in> set (snd (POST failing_insert_env))"
    by (simp add: failing_insert_env_def sample_eval sample_request_def sample_result_def
          sample_turn_def sample_user_message_def)
  have b: "create_completion failing_insert_env (sample_request [sample_result])
             = Inr sample_completion"
    by (simp add: failing_insert_env_def sample_env_def)
  have c: "failing_insert_env\<lparr>insert_messages := failing_insert\<rparr> = failing_insert_env"
    "failing_insert_env\<lparr>insert_messages :=
        (\<lambda>row. \<lparr>ins_error = Some JNull, ins_data = Some JNull\<rparr>)\<rparr>
      = sample_env [sample_entry] [sample_item]"
    by (simp_all add: failing_insert_env_def sample_env_def)
  have d: "inserted_rows (snd (POST failing_insert_env))
             = [user_row failing_insert_env
                  \<lparr>chat_id = Some (JStr ''c1''), user_id = Some (JStr ''u1''),
                   assistant_id = Some JNull, lastSeq = Finite 4\<rparr>
                  (Some (JStr ''weather in Paris'')) None,
                assistant_row failing_insert_env
                  \<lparr>chat_id = Some (JStr ''c1''), user_id = Some (JStr ''u1''),
                   assistant_id = Some JNull, lastSeq = Finite 4\<rparr>
                  ''Sunny'' None]"
    by (simp add: failing_insert_env_def sample_eval)
  have e: "insert_messages failing_insert_env = failing_insert"
    by (simp add: failing_insert_env_def)
  note t1 = insert_failure_is_silent [OF a b, of failing_insert, unfolded c]
  note t2 = insert_failure_is_silent [OF a b,
        of "\<lambda>row. \<lparr>ins_error = Some JNull, ins_data = Some JNull\<rparr>", unfolded c]
  show ?thesis
    using a b t1 t2
    by (simp add: d e assistant_content_def sample_completion_def insert_error_label_def
          user_row_def assistant_row_def failing_insert_def truthy_def)
qed

subsection \<open>C9\<close>

text \<open>
  C9: the body is parsed after the probe and outside the \<open>try\<close> block.  With a reachable
  provider and a body that is not JSON, the exception of the parser leaves the handler:
  there is no response at all, neither the 400 nor the 500 one, and nothing but the probe
  was called.
\<close>

theorem parse_failure_escapes:
  assumes "checkConnection e" and "request_json e = Inl x"
  shows "fst (POST e) = Uncaught x
         \<and> (\<forall>code b. fst (POST e) \<noteq> Response code b)
         \<and> snd (POST e) = [ProbeCall]"
  using assms by (simp add: POST_def)

theorem parse_failure_escapes_witness:
  "checkConnection unparsable_env
   \<and> request_json unparsable_env = Inl (Thrown ''Unexpected end of JSON input'')
   \<and> fst (POST unparsable_env) = Uncaught (Thrown ''Unexpected end of JSON input'')
   \<and> fst (POST unparsable_env) \<noteq> Response 400 (ErrorBody missing_query_message)
   \<and> fst (POST unparsable_env)
       \<noteq> Response 500 (ErrorBody (error_text unparsable_env
                                      (Thrown ''Unexpected end of JSON input'')))
   \<and> snd (POST unparsable_env) = [ProbeCall]"
proof -
  have a: "checkConnection unparsable_env"
    by (simp add: unparsable_env_def sample_env_def checkConnection_def ok_response_def)
  have b: "request_json unparsable_env = Inl (Thrown ''Unexpected end of JSON input'')"
    by (simp add: unparsable_env_def)
  show ?thesis using a b parse_failure_escapes [OF a b] by simp
qed

subsection \<open>C10\<close>

text \<open>
  C10: an entry whose unwrapped form has a truthy \<open>role\<close> but a falsy \<open>content\<close> (the empty
  string, \<open>0\<close>, \<open>false\<close>, \<open>null\<close> or no content at all) maps to \<open>null\<close> and is left out of
  the history: the history is the one built without the entry.
\<close>

theorem falsy_content_excluded:
  assumes "m \<noteq> JNull" and "truthy (own_prop (unwrap_entry m) ''role'')"
    and "\<not> truthy (own_prop (unwrap_entry m) ''content'')"
  shows "history_entry m = Inr None
         \<and> build_history (Some (JArr (pre @ m # post))) = build_history (Some (JArr (pre @ post)))"
proof -
  have m: "history_entry m = Inr None"
    using assms by (simp add: history_entry_eq exposes_turn_def)
  have "map_exn history_entry (pre @ m # post)
          = andThen (map_exn history_entry pre) (\<lambda>a.
              andThen (map_exn history_entry post) (\<lambda>b. Inr (a @ None # b)))"
    using m by (cases "map_exn history_entry post") (simp_all add: map_exn_append)
  moreover have "\<And>a b. not_null (a @ None # b) = (not_null (a @ b) :: chat_message list)"
    by (simp add: not_null_def)
  ultimately have "build_history (Some (JArr (pre @ m # post)))
      = build_history (Some (JArr (pre @ post)))"
    by (cases "map_exn history_entry pre"; cases "map_exn history_entry post")
       (simp_all add: build_history_def map_exn_append)
  with m show ?thesis by simp
qed

theorem falsy_content_excluded_witness:
  "empty_content_entry \<noteq> JNull
   \<and> own_prop (unwrap_entry empty_content_entry) ''role'' = Some (JStr ''user'')
   \<and> own_prop (unwrap_entry empty_content_entry) ''content'' = Some (JStr [])
   \<and> history_entry empty_content_entry = Inr None
   \<and> build_history (Some (JArr ([sample_entry] @ empty_content_entry # [flat_entry])))
       = build_history (Some (JArr ([sample_entry] @ [flat_entry])))"
proof -
  have a: "empty_content_entry \<noteq> JNull"
    by (simp add: empty_content_entry_def)
  have b: "own_prop (unwrap_entry empty_content_entry) ''role'' = Some (JStr ''user'')"
    and c: "own_prop (unwrap_entry empty_content_entry) ''content'' = Some (JStr [])"
    by (simp_all add: empty_content_entry_def unwrap_entry_def)
  have b': "truthy (own_prop (unwrap_entry empty_content_entry) ''role'')"
    and c': "\<not> truthy (own_prop (unwrap_entry empty_content_entry) ''content'')"
    by (simp_all add: b c truthy_def)
  show ?thesis
    using a b c falsy_content_excluded [OF a b' c', of "[sample_entry]" "[flat_entry]"]
    by simp
qed

end
